theory Spec2Isabelle
  imports
    Main
    "HOL-Library.Word"
    "HOL-Library.Multiset"
    "HOL-Library.Product_Lexorder"
    "HOL-Library.AList"
begin

unbundle bit_operations_syntax

section \<open>Data model of \<^verbatim>\<open>plugin/ts_helper.py\<close>\<close>

text \<open>
  The helper is duck-typed: every attribute of a syntax node is read either through
  \<^verbatim>\<open>getattr(node, name, default)\<close> or inside a \<^verbatim>\<open>try\<close> block, so a node may lack
  any of its attributes. An attribute that is absent is \<open>None\<close> in the model; the
  children are always read as \<^verbatim>\<open>getattr(n, "children", [])\<close>, so an absent list of
  children is the empty list. Points are \<open>(row, column)\<close> pairs of Python integers.
  A node type is the byte string of its grammar tag; decoded source text is a list of
  Unicode code points, because the helper counts and cuts text by code points.
\<close>

type_synonym byte = "8 word"
type_synonym codepoint = nat
type_synonym point = "int \<times> int"

datatype node = Node
  (ntype: "string option")
  (is_named: "bool option")
  (start_point: "point option")
  (end_point: "point option")
  (start_byte: "int option")
  (end_byte: "int option")
  (children: "node list")

text \<open>
  The values handed to \<^verbatim>\<open>json.dumps\<close>. A Python dict keeps insertion order, so an
  object is an association list; \<open>AList.update\<close> is the assignment \<^verbatim>\<open>d[k] = v\<close>
  (replace in place, or append a new key).
\<close>

datatype json =
    JNull
  | JBool bool
  | JInt int
  | JStr string
  | JText "codepoint list"
  | JArr "json list"
  | JObj "(string \<times> json) list"

text \<open>
  Exceptions of the \<^verbatim>\<open>Exception\<close> hierarchy, with the text \<^verbatim>\<open>str(e)\<close> gives.
  Interrupts and interpreter exits, which \<^verbatim>\<open>except Exception\<close> does not catch, are
  not modelled.
\<close>

datatype exc =
    TypeError string
  | AttributeError string
  | RuntimeError string
  | ValueError string
  | OtherException string

fun exc_str :: "exc \<Rightarrow> string" where
  "exc_str (TypeError m) = m"
| "exc_str (AttributeError m) = m"
| "exc_str (RuntimeError m) = m"
| "exc_str (ValueError m) = m"
| "exc_str (OtherException m) = m"

section \<open>Python library functions used by the helper\<close>

subsection \<open>Slicing\<close>

text \<open>
  \<^verbatim>\<open>xs[a:b]\<close>: a negative index counts from the end, and both indices are clamped
  to the length.
\<close>

definition slice_index :: "nat \<Rightarrow> int \<Rightarrow> int" where
  "slice_index n i = (if i < 0 then max 0 (i + int n) else min i (int n))"

definition py_slice :: "'a list \<Rightarrow> int \<Rightarrow> int \<Rightarrow> 'a list" where
  "py_slice xs a b =
     (let lo = slice_index (length xs) a; hi = slice_index (length xs) b
      in take (nat (hi - lo)) (drop (nat lo) xs))"

subsection \<open>\<^verbatim>\<open>bytes.decode("utf8", "replace")\<close>\<close>

text \<open>
  The decoder of CPython with the \<^verbatim>\<open>replace\<close> handler: every maximal invalid part
  becomes one U+FFFD and decoding resumes at the first byte that was not consumed.
  It never raises.
\<close>

definition replacement_char :: codepoint where
  "replacement_char = 0xFFFD"

definition is_continuation :: "byte \<Rightarrow> bool" where
  "is_continuation b = (0x80 \<le> b \<and> b < 0xC0)"

definition cont_bits :: "byte \<Rightarrow> nat" where
  "cont_bits b = unat (b AND 0x3F)"

fun utf8_decode :: "byte list \<Rightarrow> codepoint list" where
  "utf8_decode [] = []"
| "utf8_decode (b # bs) =
     (if b < 0x80 then unat b # utf8_decode bs
      else if b < 0xC2 then replacement_char # utf8_decode bs
      else if b < 0xE0 then
        (case bs of
           [] \<Rightarrow> [replacement_char]
         | b2 # r2 \<Rightarrow>
             if is_continuation b2
             then (unat (b AND 0x1F) * 64 + cont_bits b2) # utf8_decode r2
             else replacement_char # utf8_decode (b2 # r2))
      else if b < 0xF0 then
        (case bs of
           [] \<Rightarrow> [replacement_char]
         | b2 # r2 \<Rightarrow>
             if \<not> is_continuation b2 \<or> (b = 0xE0 \<and> b2 < 0xA0) \<or> (b = 0xED \<and> 0xA0 \<le> b2)
             then replacement_char # utf8_decode (b2 # r2)
             else
               (case r2 of
                  [] \<Rightarrow> [replacement_char]
                | b3 # r3 \<Rightarrow>
                    if is_continuation b3
                    then (unat (b AND 0x0F) * 4096 + cont_bits b2 * 64 + cont_bits b3)
                           # utf8_decode r3
                    else replacement_char # utf8_decode (b3 # r3)))
      else if b < 0xF5 then
        (case bs of
           [] \<Rightarrow> [replacement_char]
         | b2 # r2 \<Rightarrow>
             if \<not> is_continuation b2 \<or> (b = 0xF0 \<and> b2 < 0x90) \<or> (b = 0xF4 \<and> 0x90 \<le> b2)
             then replacement_char # utf8_decode (b2 # r2)
             else
               (case r2 of
                  [] \<Rightarrow> [replacement_char]
                | b3 # r3 \<Rightarrow>
                    if \<not> is_continuation b3
                    then replacement_char # utf8_decode (b3 # r3)
                    else
                      (case r3 of
                         [] \<Rightarrow> [replacement_char]
                       | b4 # r4 \<Rightarrow>
                           if is_continuation b4
                           then (unat (b AND 0x07) * 262144 + cont_bits b2 * 4096
                                   + cont_bits b3 * 64 + cont_bits b4) # utf8_decode r4
                           else replacement_char # utf8_decode (b4 # r4))))
      else replacement_char # utf8_decode bs)"

subsection \<open>\<^verbatim>\<open>" ".join(text.split())\<close>\<close>

text \<open>
  \<^verbatim>\<open>str.split()\<close> without arguments cuts at runs of characters for which
  \<^verbatim>\<open>str.isspace\<close> holds and returns the non-empty pieces.
\<close>

definition is_space :: "codepoint \<Rightarrow> bool" where
  "is_space c =
     ((9 \<le> c \<and> c \<le> 13) \<or> (28 \<le> c \<and> c \<le> 32) \<or> c = 0x85 \<or> c = 0xA0 \<or> c = 0x1680
      \<or> (0x2000 \<le> c \<and> c \<le> 0x200A) \<or> c = 0x2028 \<or> c = 0x2029 \<or> c = 0x202F
      \<or> c = 0x205F \<or> c = 0x3000)"

fun split_from :: "codepoint list \<Rightarrow> codepoint list \<Rightarrow> codepoint list list" where
  "split_from w [] = (if w = [] then [] else [w])"
| "split_from w (c # cs) =
     (if is_space c then (if w = [] then split_from [] cs else w # split_from [] cs)
      else split_from (w @ [c]) cs)"

definition py_split :: "codepoint list \<Rightarrow> codepoint list list" where
  "py_split s = split_from [] s"

fun py_join :: "codepoint list \<Rightarrow> codepoint list list \<Rightarrow> codepoint list" where
  "py_join sep [] = []"
| "py_join sep [w] = w"
| "py_join sep (w # v # ws) = w @ sep @ py_join sep (v # ws)"

definition normalize_ws :: "codepoint list \<Rightarrow> codepoint list" where
  "normalize_ws s = py_join [32] (py_split s)"

section \<open>Rendering one node: \<^verbatim>\<open>node_to_dict\<close>\<close>

text \<open>
  Both points are read in one \<^verbatim>\<open>try\<close>: when either is absent, all four coordinates
  are zero. The byte offsets, the type and the named flag each have their own default.
  With offsets that are integers the slice and the permissive decoding cannot raise,
  so the handler that sets the text to the empty string is never entered.
\<close>

definition node_points :: "node \<Rightarrow> point \<times> point" where
  "node_points n =
     (case start_point n of
        None \<Rightarrow> ((0, 0), (0, 0))
      | Some sp \<Rightarrow> (case end_point n of None \<Rightarrow> ((0, 0), (0, 0)) | Some ep \<Rightarrow> (sp, ep)))"

definition byte_or_zero :: "int option \<Rightarrow> int" where
  "byte_or_zero b = (case b of None \<Rightarrow> 0 | Some i \<Rightarrow> i)"

definition json_point :: "point \<Rightarrow> json" where
  "json_point p = JArr [JInt (fst p), JInt (snd p)]"

definition json_type :: "string option \<Rightarrow> json" where
  "json_type t = (case t of None \<Rightarrow> JNull | Some s \<Rightarrow> JStr s)"

definition truncate_text :: "int \<Rightarrow> codepoint list \<Rightarrow> codepoint list" where
  "truncate_text max_text text =
     (if int (length text) > max_text then py_slice text 0 (max_text - 3) @ [46, 46, 46]
      else text)"

definition node_text :: "node \<Rightarrow> byte list \<Rightarrow> int \<Rightarrow> codepoint list" where
  "node_text n source_bytes max_text =
     truncate_text max_text
       (normalize_ws (utf8_decode
          (py_slice source_bytes (byte_or_zero (start_byte n)) (byte_or_zero (end_byte n)))))"

definition node_to_dict :: "node \<Rightarrow> byte list \<Rightarrow> bool \<Rightarrow> int \<Rightarrow> (string \<times> json) list" where
  "node_to_dict n source_bytes include_text max_text =
     (let (sp, ep) = node_points n;
          d = [(''type'', json_type (ntype n)),
               (''named'', JBool (case is_named n of None \<Rightarrow> False | Some b \<Rightarrow> b)),
               (''start_point'', json_point sp),
               (''end_point'', json_point ep),
               (''start_byte'', JInt (byte_or_zero (start_byte n))),
               (''end_byte'', JInt (byte_or_zero (end_byte n)))]
      in if include_text
         then AList.update ''text'' (JText (node_text n source_bytes max_text)) d
         else d)"

text \<open>The default of the parameter \<^verbatim>\<open>max_text\<close>; no caller passes another value.\<close>

definition default_max_text :: int where
  "default_max_text = 120"

section \<open>The \<^verbatim>\<open>ast\<close> view: \<^verbatim>\<open>walk_node\<close>\<close>

fun walk_node :: "node \<Rightarrow> byte list \<Rightarrow> (string \<times> json) list"
  and walk_children :: "node list \<Rightarrow> byte list \<Rightarrow> json list" where
  "walk_node (Node t nm sp ep sb eb cs) source_bytes =
     AList.update ''children'' (JArr (walk_children cs source_bytes))
       (node_to_dict (Node t nm sp ep sb eb cs) source_bytes True default_max_text)"
| "walk_children [] source_bytes = []"
| "walk_children (child # cs) source_bytes =
     JObj (walk_node child source_bytes) # walk_children cs source_bytes"

text \<open>The nodes \<^verbatim>\<open>walk_node\<close> renders, in the order it reaches them.\<close>

fun ast_nodes :: "node \<Rightarrow> node list"
  and ast_nodes_list :: "node list \<Rightarrow> node list" where
  "ast_nodes (Node t nm sp ep sb eb cs) = Node t nm sp ep sb eb cs # ast_nodes_list cs"
| "ast_nodes_list [] = []"
| "ast_nodes_list (child # cs) = ast_nodes child @ ast_nodes_list cs"

text \<open>Reading the rendered tree back as the flat list of its objects, each without its
  \<^verbatim>\<open>children\<close> entry.\<close>

fun json_objects :: "json \<Rightarrow> (string \<times> json) list list"
  and json_objects_list :: "json list \<Rightarrow> (string \<times> json) list list"
  and json_objects_fields :: "(string \<times> json) list \<Rightarrow> (string \<times> json) list list" where
  "json_objects (JObj kvs) = AList.delete ''children'' kvs # json_objects_fields kvs"
| "json_objects (JArr js) = json_objects_list js"
| "json_objects JNull = []"
| "json_objects (JBool b) = []"
| "json_objects (JInt i) = []"
| "json_objects (JStr s) = []"
| "json_objects (JText s) = []"
| "json_objects_list [] = []"
| "json_objects_list (j # js) = json_objects j @ json_objects_list js"
| "json_objects_fields [] = []"
| "json_objects_fields (kv # kvs) =
     (if fst kv = ''children'' then json_objects (snd kv) else []) @ json_objects_fields kvs"

section \<open>The \<^verbatim>\<open>symbols\<close> and \<^verbatim>\<open>folds\<close> collectors\<close>

definition DEFAULT_SYMBOL_NODE_TYPES :: "string set" where
  "DEFAULT_SYMBOL_NODE_TYPES =
     {''function_definition'', ''function_declaration'', ''function_item'',
      ''method_definition'', ''method_declaration'', ''class_declaration'',
      ''class_definition'', ''class_specifier'', ''function'', ''method''}"

text \<open>
  \<^verbatim>\<open>out.sort(key=lambda n: (n.start_point[0], n.start_point[1]))\<close>: the key is
  computed for every element, so the call raises when one of them has no start point;
  otherwise the list is sorted by the key, lexicographically on the pair, and the sort
  is stable.
\<close>

definition start_key :: "node \<Rightarrow> point" where
  "start_key n = the (start_point n)"

definition sort_by_start :: "node list \<Rightarrow> exc + node list" where
  "sort_by_start out =
     (if list_all (\<lambda>n. start_point n \<noteq> None) out then Inr (sort_key start_key out)
      else Inl (AttributeError ''start_point''))"

definition in_types :: "string option \<Rightarrow> string set \<Rightarrow> bool" where
  "in_types t symbol_types = (case t of None \<Rightarrow> False | Some s \<Rightarrow> s \<in> symbol_types)"

fun visit_symbols :: "string set \<Rightarrow> node \<Rightarrow> node list \<Rightarrow> node list"
  and visit_symbols_children :: "string set \<Rightarrow> node list \<Rightarrow> node list \<Rightarrow> node list" where
  "visit_symbols symbol_types (Node t nm sp ep sb eb cs) out =
     visit_symbols_children symbol_types cs
       (if in_types t symbol_types then out @ [Node t nm sp ep sb eb cs] else out)"
| "visit_symbols_children symbol_types [] out = out"
| "visit_symbols_children symbol_types (c # cs) out =
     visit_symbols_children symbol_types cs (visit_symbols symbol_types c out)"

definition collect_symbols :: "node \<Rightarrow> string set option \<Rightarrow> exc + node list" where
  "collect_symbols root symbol_types =
     sort_by_start
       (visit_symbols
          (case symbol_types of None \<Rightarrow> DEFAULT_SYMBOL_NODE_TYPES | Some st \<Rightarrow> st) root [])"

text \<open>
  In \<^verbatim>\<open>collect_folds\<close> the visit of a node without a start or an end point returns
  at once: the node is not collected and its children are not visited.
\<close>

fun visit_folds :: "node \<Rightarrow> node list \<Rightarrow> node list"
  and visit_folds_children :: "node list \<Rightarrow> node list \<Rightarrow> node list" where
  "visit_folds (Node t nm sp ep sb eb cs) out =
     (case sp of
        None \<Rightarrow> out
      | Some s \<Rightarrow>
          (case ep of
             None \<Rightarrow> out
           | Some e \<Rightarrow>
               visit_folds_children cs
                 (if fst e > fst s then out @ [Node t nm sp ep sb eb cs] else out)))"
| "visit_folds_children [] out = out"
| "visit_folds_children (c # cs) out = visit_folds_children cs (visit_folds c out)"

definition collect_folds :: "node \<Rightarrow> exc + node list" where
  "collect_folds root = sort_by_start (visit_folds root [])"

section \<open>The external parsing library\<close>

text \<open>
  The grammar packages and the binding are not part of the helper. The helper's code is
  modelled over every behaviour they can show: each call either raises or returns.
  \<^item> \<open>import_module\<close> is \<^verbatim>\<open>importlib.import_module\<close>; a module has a
    \<^verbatim>\<open>language\<close> attribute or not, callable or not, and calling it raises or
    returns an object that is an instance of \<^verbatim>\<open>Language\<close> (\<open>LanguageObj\<close>) or is
    not (\<open>RawObj\<close>).
  \<^item> \<open>Language\<close> is the constructor \<^verbatim>\<open>Language(obj)\<close>.
  \<^item> \<open>Parser_with\<close> is \<^verbatim>\<open>Parser(lang)\<close>, \<open>Parser_empty\<close> is \<^verbatim>\<open>Parser()\<close>, and
    \<open>set_language\<close> returns the parser it has bound.
  \<^item> \<open>parse_root\<close> is \<^verbatim>\<open>parser.parse(source_bytes).root_node\<close>; \<open>None\<close> is a root
    that is absent (falsy).
  \<^item> \<open>named_descendant_for_point_range\<close> is the method of that name of a node.
  \<^item> \<open>stdin_read\<close> is \<^verbatim>\<open>sys.stdin.buffer.read()\<close>, which may return \<^verbatim>\<open>None\<close>.
  \<^item> \<open>int_of_str\<close> is the built-in \<^verbatim>\<open>int\<close> applied to a command-line argument: it
    returns the integer or raises. Which strings it accepts (white space around the
    literal, underscores, digits of other scripts, the limit on the number of digits)
    is a matter of the interpreter and differs between its versions, so the helper is
    modelled over every such conversion.
\<close>

datatype lang_obj = LanguageObj nat | RawObj nat

datatype entry_point = NotCallable | Callable "exc + lang_obj"

datatype pymodule = PyModule (language_attr: "entry_point option")

type_synonym parser = nat

record env =
  import_module :: "string \<Rightarrow> exc + pymodule"
  Language :: "nat \<Rightarrow> exc + nat"
  Parser_with :: "lang_obj \<Rightarrow> exc + parser"
  Parser_empty :: "exc + parser"
  set_language :: "parser \<Rightarrow> lang_obj \<Rightarrow> exc + parser"
  parse_root :: "parser \<Rightarrow> byte list \<Rightarrow> exc + node option"
  named_descendant_for_point_range :: "node \<Rightarrow> point \<Rightarrow> point \<Rightarrow> exc + node option"
  stdin_read :: "exc + byte list option"
  int_of_str :: "string \<Rightarrow> exc + int"

section \<open>Loading the grammar and building the parser\<close>

definition newline :: string where
  "newline = [CHR 0x0A]"

definition quote :: string where
  "quote = [CHR 0x27]"

definition load_language_from_package :: "env \<Rightarrow> string \<Rightarrow> exc + lang_obj" where
  "load_language_from_package e lang_name =
     (let mod_name = ''tree_sitter_'' @ lang_name in
      case import_module e mod_name of
        Inl err \<Rightarrow>
          Inl (RuntimeError
                (''Could not import language package '' @ quote @ mod_name @ quote
                 @ ''. Install it with: pip install ''
                 @ map (\<lambda>c. if c = CHR ''_'' then CHR ''-'' else c) mod_name
                 @ newline @ ''Underlying error: '' @ exc_str err))
      | Inr m \<Rightarrow>
          (case language_attr m of
             None \<Rightarrow> Inl (RuntimeError (''Module '' @ mod_name @ '' does not expose language()''))
           | Some NotCallable \<Rightarrow>
               Inl (RuntimeError (''Module '' @ mod_name @ '' does not expose language()''))
           | Some (Callable r) \<Rightarrow>
               (case r of
                  Inl err \<Rightarrow> Inl err
                | Inr (LanguageObj h) \<Rightarrow> Inr (LanguageObj h)
                | Inr (RawObj h) \<Rightarrow>
                    (case Language e h of
                       Inr l \<Rightarrow> Inr (LanguageObj l)
                     | Inl err \<Rightarrow> Inr (RawObj h)))))"

definition load_language :: "env \<Rightarrow> string \<Rightarrow> exc + lang_obj" where
  "load_language e lang_name = load_language_from_package e lang_name"

text \<open>
  Both handlers of \<^verbatim>\<open>make_parser_for_language\<close> have the same body; an exception
  raised inside a handler propagates to the caller.
\<close>

definition construct_then_bind :: "env \<Rightarrow> lang_obj \<Rightarrow> exc + parser" where
  "construct_then_bind e lang =
     (case Parser_empty e of
        Inl err \<Rightarrow> Inl err
      | Inr p \<Rightarrow> set_language e p lang)"

definition make_parser_for_language :: "env \<Rightarrow> lang_obj \<Rightarrow> exc + parser" where
  "make_parser_for_language e lang =
     (case Parser_with e lang of
        Inr p \<Rightarrow> Inr p
      | Inl (TypeError m) \<Rightarrow> construct_then_bind e lang
      | Inl err \<Rightarrow> construct_then_bind e lang)"

section \<open>The program: \<^verbatim>\<open>main\<close>\<close>

text \<open>
  The command line after \<^verbatim>\<open>argparse\<close>: the language, one of the four commands, and
  the remaining positional arguments. A run ends with what it printed, what it wrote to
  standard error and its exit status; \<open>Inl\<close> is an exception that nothing caught, with
  which the interpreter ends the run with a traceback.
\<close>

datatype command = Ast | NodeAt | Symbols | Folds

record argv =
  lang :: string
  cmd :: command
  args :: "string list"

record outcome =
  stdout :: "json list"
  stderr :: string
  exit_code :: int

definition printed :: "json \<Rightarrow> outcome" where
  "printed j = \<lparr>stdout = [j], stderr = [], exit_code = 0\<rparr>"

definition exited :: "string \<Rightarrow> int \<Rightarrow> outcome" where
  "exited message status = \<lparr>stdout = [], stderr = message, exit_code = status\<rparr>"

definition read_source :: "env \<Rightarrow> byte list" where
  "read_source e =
     (case stdin_read e of
        Inl err \<Rightarrow> []
      | Inr None \<Rightarrow> []
      | Inr (Some bs) \<Rightarrow> bs)"

definition acquire_root :: "env \<Rightarrow> parser \<Rightarrow> byte list \<Rightarrow> node option" where
  "acquire_root e p source_bytes =
     (case parse_root e p source_bytes of Inl err \<Rightarrow> None | Inr r \<Rightarrow> r)"

definition find_smallest_named_at :: "env \<Rightarrow> node \<Rightarrow> int \<Rightarrow> int \<Rightarrow> node option" where
  "find_smallest_named_at e root row col =
     (case named_descendant_for_point_range e root (row, col) (row, col) of
        Inl err \<Rightarrow> None
      | Inr r \<Rightarrow> r)"

definition cmd_ast :: "node option \<Rightarrow> byte list \<Rightarrow> exc + outcome" where
  "cmd_ast root source_bytes =
     (case root of
        None \<Rightarrow> Inr (printed (JObj []))
      | Some r \<Rightarrow> Inr (printed (JObj (walk_node r source_bytes))))"

definition cmd_node_at :: "env \<Rightarrow> node option \<Rightarrow> byte list \<Rightarrow> string list \<Rightarrow> exc + outcome" where
  "cmd_node_at e root source_bytes as =
     (if length as < 2 then Inr (exited (''node_at requires ROW COL'' @ newline) 7)
      else
        (case int_of_str e (as ! 0) of
           Inl err \<Rightarrow> Inr (exited (''Invalid ROW/COL'' @ newline) 8)
         | Inr row \<Rightarrow>
             (case int_of_str e (as ! 1) of
                Inl err \<Rightarrow> Inr (exited (''Invalid ROW/COL'' @ newline) 8)
              | Inr col \<Rightarrow>
                  (case root of
                     None \<Rightarrow> Inr (printed (JObj []))
                   | Some r \<Rightarrow>
                       (case find_smallest_named_at e r row col of
                          None \<Rightarrow> Inr (printed (JObj []))
                        | Some n \<Rightarrow>
                            Inr (printed (JObj
                              (AList.update ''children_count'' (JInt (int (length (children n))))
                                 (node_to_dict n source_bytes True default_max_text)))))))))"

text \<open>
  The loop over the children of a symbol node, with its variable \<^verbatim>\<open>name\<close>. Reading
  \<^verbatim>\<open>c.start_byte\<close> or \<^verbatim>\<open>c.end_byte\<close> of a child that lacks it raises inside the
  \<^verbatim>\<open>try\<close>; the handler resets \<^verbatim>\<open>name\<close> and the loop goes on with the next child.
\<close>

fun contains :: "string \<Rightarrow> string \<Rightarrow> bool" where
  "contains sub [] = (sub = [])"
| "contains sub (c # cs) = (take (length sub) (c # cs) = sub \<or> contains sub cs)"

definition name_like :: "string \<Rightarrow> bool" where
  "name_like ctype =
     (contains ''name'' ctype \<or> contains ''identifier'' ctype \<or> ctype = ''identifier'')"

fun find_name :: "byte list \<Rightarrow> codepoint list option \<Rightarrow> node list \<Rightarrow> codepoint list option" where
  "find_name source_bytes name [] = name"
| "find_name source_bytes name (c # cs) =
     (if name_like (case ntype c of None \<Rightarrow> [] | Some t \<Rightarrow> t)
      then
        (case start_byte c of
           None \<Rightarrow> find_name source_bytes None cs
         | Some sb \<Rightarrow>
             (case end_byte c of
                None \<Rightarrow> find_name source_bytes None cs
              | Some eb \<Rightarrow> Some (normalize_ws (utf8_decode (py_slice source_bytes sb eb)))))
      else find_name source_bytes name cs)"

definition json_name :: "codepoint list option \<Rightarrow> json" where
  "json_name name = (case name of None \<Rightarrow> JNull | Some t \<Rightarrow> JText t)"

definition symbol_record :: "node \<Rightarrow> byte list \<Rightarrow> json" where
  "symbol_record n source_bytes =
     JObj (AList.update ''name'' (json_name (find_name source_bytes None (children n)))
             (node_to_dict n source_bytes False default_max_text))"

definition cmd_symbols :: "node option \<Rightarrow> byte list \<Rightarrow> exc + outcome" where
  "cmd_symbols root source_bytes =
     (case root of
        None \<Rightarrow> Inr (printed (JArr []))
      | Some r \<Rightarrow>
          (case collect_symbols r None of
             Inl err \<Rightarrow> Inl err
           | Inr syms \<Rightarrow> Inr (printed (JArr (map (\<lambda>n. symbol_record n source_bytes) syms)))))"

text \<open>
  The record of a fold reads \<^verbatim>\<open>n.start_point\<close> and \<^verbatim>\<open>n.end_point\<close> unguarded, so
  building it raises for a node that lacks one of them.
\<close>

definition fold_record :: "node \<Rightarrow> exc + json" where
  "fold_record n =
     (case start_point n of
        None \<Rightarrow> Inl (AttributeError ''start_point'')
      | Some sp \<Rightarrow>
          (case end_point n of
             None \<Rightarrow> Inl (AttributeError ''end_point'')
           | Some ep \<Rightarrow>
               Inr (JObj [(''type'', json_type (ntype n)),
                          (''start_point'', json_point sp),
                          (''end_point'', json_point ep),
                          (''start_byte'', JInt (byte_or_zero (start_byte n))),
                          (''end_byte'', JInt (byte_or_zero (end_byte n)))])))"

fun fold_records :: "node list \<Rightarrow> json list \<Rightarrow> exc + json list" where
  "fold_records [] out = Inr out"
| "fold_records (n # ns) out =
     (case fold_record n of
        Inl err \<Rightarrow> Inl err
      | Inr d \<Rightarrow> fold_records ns (out @ [d]))"

definition cmd_folds :: "node option \<Rightarrow> exc + outcome" where
  "cmd_folds root =
     (case root of
        None \<Rightarrow> Inr (printed (JArr []))
      | Some r \<Rightarrow>
          (case collect_folds r of
             Inl err \<Rightarrow> Inl err
           | Inr nodes \<Rightarrow>
               (case fold_records nodes [] of
                  Inl err \<Rightarrow> Inl err
                | Inr out \<Rightarrow> Inr (printed (JArr out)))))"

definition main :: "env \<Rightarrow> argv \<Rightarrow> exc + outcome" where
  "main e a =
     (case load_language e (lang a) of
        Inl err \<Rightarrow> Inr (exited (''Error loading language: '' @ exc_str err @ newline) 4)
      | Inr l \<Rightarrow>
          (case make_parser_for_language e l of
             Inl err \<Rightarrow> Inr (exited (''Failed to construct parser: '' @ exc_str err @ newline) 5)
           | Inr p \<Rightarrow>
               (let source_bytes = read_source e;
                    root = acquire_root e p source_bytes
                in case cmd a of
                     Ast \<Rightarrow> cmd_ast root source_bytes
                   | NodeAt \<Rightarrow> cmd_node_at e root source_bytes (args a)
                   | Symbols \<Rightarrow> cmd_symbols root source_bytes
                   | Folds \<Rightarrow> cmd_folds root)))"

section \<open>Properties of nodes and trees\<close>

text \<open>A node as the parsing library delivers it has both of its points.\<close>

definition has_points :: "node \<Rightarrow> bool" where
  "has_points n = (start_point n \<noteq> None \<and> end_point n \<noteq> None)"

definition positioned :: "node \<Rightarrow> bool" where
  "positioned root = list_all has_points (ast_nodes root)"

text \<open>The end row is strictly greater than the start row.\<close>

definition spans_lines :: "node \<Rightarrow> bool" where
  "spans_lines n =
     (case start_point n of
        None \<Rightarrow> False
      | Some s \<Rightarrow> (case end_point n of None \<Rightarrow> False | Some e \<Rightarrow> fst e > fst s))"

definition is_symbol :: "string set \<Rightarrow> node \<Rightarrow> bool" where
  "is_symbol symbol_types n = in_types (ntype n) symbol_types"

text \<open>The type of the node is one of the strings of the allow-list.\<close>

definition allow_listed :: "node \<Rightarrow> bool" where
  "allow_listed n = (ntype n \<in> Some ` DEFAULT_SYMBOL_NODE_TYPES)"

text \<open>Ascending order of \<open>(row, column)\<close> pairs, written out.\<close>

definition point_le :: "point \<Rightarrow> point \<Rightarrow> bool" where
  "point_le p q = (fst p < fst q \<or> (fst p = fst q \<and> snd p \<le> snd q))"

definition json_field :: "json \<Rightarrow> string \<Rightarrow> json option" where
  "json_field j k = (case j of JObj kvs \<Rightarrow> map_of kvs k | _ \<Rightarrow> None)"

section \<open>Text as the specification words it\<close>

text \<open>
  Collapsing every run of white space to one space, and removing the white space at
  both ends.
\<close>

function collapse_runs :: "codepoint list \<Rightarrow> codepoint list" where
  "collapse_runs [] = []"
| "collapse_runs (c # cs) =
     (if is_space c then 32 # collapse_runs (dropWhile is_space cs) else c # collapse_runs cs)"
  by pat_completeness auto
termination
  by (relation "measure length") (auto simp add: length_dropWhile_le less_Suc_eq_le)

definition rstrip_ws :: "codepoint list \<Rightarrow> codepoint list" where
  "rstrip_ws s = rev (dropWhile is_space (rev s))"

definition strip_ws :: "codepoint list \<Rightarrow> codepoint list" where
  "strip_ws s = rstrip_ws (dropWhile is_space s)"

text \<open>
  The name of a symbol. A child names the symbol when its type contains \<^verbatim>\<open>name\<close> or
  \<^verbatim>\<open>identifier\<close>; its text can be extracted when it has both byte offsets.
  \<open>claimed_name\<close> takes the first child that names the symbol, and is absent when
  there is none or when the text of that child cannot be extracted.
  \<open>first_extracted_name\<close> takes the first child that names the symbol and whose text
  can be extracted.
\<close>

definition child_type :: "node \<Rightarrow> string" where
  "child_type c = (case ntype c of None \<Rightarrow> [] | Some t \<Rightarrow> t)"

definition names_symbol :: "node \<Rightarrow> bool" where
  "names_symbol c = (contains ''name'' (child_type c) \<or> contains ''identifier'' (child_type c))"

definition child_text :: "byte list \<Rightarrow> node \<Rightarrow> codepoint list option" where
  "child_text source_bytes c =
     (case start_byte c of
        None \<Rightarrow> None
      | Some sb \<Rightarrow>
          (case end_byte c of
             None \<Rightarrow> None
           | Some eb \<Rightarrow> Some (normalize_ws (utf8_decode (py_slice source_bytes sb eb)))))"

definition claimed_name :: "byte list \<Rightarrow> node \<Rightarrow> codepoint list option" where
  "claimed_name source_bytes n =
     (case find names_symbol (children n) of
        None \<Rightarrow> None
      | Some c \<Rightarrow> child_text source_bytes c)"

definition first_extracted_name :: "byte list \<Rightarrow> node \<Rightarrow> codepoint list option" where
  "first_extracted_name source_bytes n =
     (case find (\<lambda>c. names_symbol c \<and> child_text source_bytes c \<noteq> None) (children n) of
        None \<Rightarrow> None
      | Some c \<Rightarrow> child_text source_bytes c)"

text \<open>
  The object renders the position and byte fields of the node with the defaults of
  \<^verbatim>\<open>node_to_dict\<close>: both points as \<open>[0, 0]\<close> when the node lacks one of them, the
  points of the node otherwise, and a byte offset that the node lacks as 0.
\<close>

definition zero_defaults :: "node \<Rightarrow> json \<Rightarrow> bool" where
  "zero_defaults n obj =
     (json_field obj ''start_point'' =
        Some (if has_points n
              then JArr [JInt (fst (the (start_point n))), JInt (snd (the (start_point n)))]
              else JArr [JInt 0, JInt 0])
    \<and> json_field obj ''end_point'' =
        Some (if has_points n
              then JArr [JInt (fst (the (end_point n))), JInt (snd (the (end_point n)))]
              else JArr [JInt 0, JInt 0])
    \<and> json_field obj ''start_byte'' =
        Some (JInt (case start_byte n of None \<Rightarrow> 0 | Some b \<Rightarrow> b))
    \<and> json_field obj ''end_byte'' =
        Some (JInt (case end_byte n of None \<Rightarrow> 0 | Some b \<Rightarrow> b)))"

text \<open>The empty JSON shape of each command.\<close>

definition empty_shape :: "command \<Rightarrow> json" where
  "empty_shape c = (case c of Ast \<Rightarrow> JObj [] | NodeAt \<Rightarrow> JObj [] | Symbols \<Rightarrow> JArr [] | Folds \<Rightarrow> JArr [])"

section \<open>Example inputs\<close>

text \<open>
  The Python source \<^verbatim>\<open>def foo():\n    pass\n\<close> and its tree: a module with one function
  definition, whose children are the keyword, the name, the parameters, the colon and
  the body.
\<close>

definition bytes_of :: "string \<Rightarrow> byte list" where
  "bytes_of s = map of_char s"

definition foo_source :: "byte list" where
  "foo_source = bytes_of (''def foo():'' @ newline @ ''    pass'' @ newline)"

definition leaf :: "string \<Rightarrow> bool \<Rightarrow> point \<Rightarrow> point \<Rightarrow> int \<Rightarrow> int \<Rightarrow> node list \<Rightarrow> node" where
  "leaf t nm sp ep sb eb cs = Node (Some t) (Some nm) (Some sp) (Some ep) (Some sb) (Some eb) cs"

definition foo_function :: node where
  "foo_function =
     leaf ''function_definition'' True (0, 0) (1, 8) 0 19
       [leaf ''def'' False (0, 0) (0, 3) 0 3 [],
        leaf ''identifier'' True (0, 4) (0, 7) 4 7 [],
        leaf ''parameters'' True (0, 7) (0, 9) 7 9 [],
        leaf '':'' False (0, 9) (0, 10) 9 10 [],
        leaf ''block'' True (1, 4) (1, 8) 15 19
          [leaf ''pass_statement'' True (1, 4) (1, 8) 15 19 []]]"

definition foo_tree :: node where
  "foo_tree = leaf ''module'' True (0, 0) (2, 0) 0 20 [foo_function]"

text \<open>
  A function definition whose first child of type \<^verbatim>\<open>identifier\<close> has no byte offsets
  and whose second child, of type \<^verbatim>\<open>name\<close>, covers the bytes of \<^verbatim>\<open>foo\<close>.
\<close>

definition broken_symbol :: node where
  "broken_symbol =
     leaf ''function_definition'' True (0, 0) (1, 8) 0 19
       [Node (Some ''identifier'') (Some True) (Some (0, 4)) (Some (0, 7)) None None [],
        leaf ''name'' True (0, 4) (0, 7) 4 7 []]"

text \<open>The source \<^verbatim>\<open>x = 1\n\<close> and a module node that covers all six bytes of it.\<close>

definition assign_source :: "byte list" where
  "assign_source = bytes_of (''x = 1'' @ newline)"

definition assign_module :: node where
  "assign_module = leaf ''module'' True (0, 0) (1, 0) 0 6 []"

text \<open>
  A conversion for the example runs: it reads a non-empty sequence of ASCII digits and
  raises on every other string. What else the built-in accepts is not needed by the
  examples.
\<close>

definition is_digit :: "char \<Rightarrow> bool" where
  "is_digit c = (c \<in> set ''0123456789'')"

definition digit_value :: "char \<Rightarrow> int" where
  "digit_value c = int (of_char c) - 48"

definition plain_decimal :: "string \<Rightarrow> exc + int" where
  "plain_decimal s =
     (if s \<noteq> [] \<and> list_all is_digit s
      then Inr (foldl (\<lambda>acc c. acc * 10 + digit_value c) 0 s)
      else Inl (ValueError (''invalid literal for int() with base 10: '' @ quote @ s @ quote)))"

text \<open>
  A binding in which every call succeeds: the only grammar package installed is that of
  Python, standard input holds \<open>input\<close>, the parser answers with \<open>root\<close>, and the
  point lookup answers with the node it is asked at.
\<close>

definition python_module :: pymodule where
  "python_module = PyModule (Some (Callable (Inr (LanguageObj 1))))"

definition example_env :: "byte list \<Rightarrow> node option \<Rightarrow> env" where
  "example_env input root =
     \<lparr>import_module =
        (\<lambda>name. if name = ''tree_sitter_python'' then Inr python_module
                else Inl (OtherException (''No module named '' @ name))),
      Language = (\<lambda>h. Inr h),
      Parser_with = (\<lambda>l. Inr 0),
      Parser_empty = Inr 0,
      set_language = (\<lambda>p l. Inr p),
      parse_root = (\<lambda>p bs. Inr root),
      named_descendant_for_point_range = (\<lambda>n p q. Inr (Some n)),
      stdin_read = Inr (Some input),
      int_of_str = plain_decimal\<rparr>"

definition python_argv :: "command \<Rightarrow> string list \<Rightarrow> argv" where
  "python_argv c as = \<lparr>lang = ''python'', cmd = c, args = as\<rparr>"



text \<open>
  A package whose entry point returns a raw handle that the grammar constructor
  rejects.
\<close>

definition raw_handle_env :: env where
  "raw_handle_env =
     (example_env foo_source (Some foo_tree))
       \<lparr>import_module := (\<lambda>name. Inr (PyModule (Some (Callable (Inr (RawObj 7)))))),
         Language := (\<lambda>h. Inl (TypeError ''an integer is required''))\<rparr>"

text \<open>The root the parser returns for an empty buffer: a module that spans nothing.\<close>

definition empty_module :: node where
  "empty_module = leaf ''module'' True (0, 0) (0, 0) 0 0 []"

text \<open>
  The tree of \<^verbatim>\<open>foo_source\<close> with a root that has no start point; a function
  definition without points; a block of four lines without a start byte; and a function
  definition that has a start point but neither an end point nor byte offsets.
\<close>

definition half_positioned_root :: node where
  "half_positioned_root =
     Node (Some ''module'') (Some True) None (Some (2, 0)) (Some 0) (Some 20) [foo_function]"

definition unpositioned_symbol :: node where
  "unpositioned_symbol =
     Node (Some ''function_definition'') (Some True) None None (Some 0) (Some 19) []"

definition startless_fold :: node where
  "startless_fold = Node (Some ''block'') (Some True) (Some (0, 0)) (Some (3, 0)) None (Some 30) []"

definition endless_symbol :: node where
  "endless_symbol =
     Node (Some ''function_definition'') (Some True) (Some (3, 4)) None None None []"

section \<open>The library functions on examples\<close>

lemma utf8_decode_examples:
  "utf8_decode [0x66, 0x6F, 0x6F] = [102, 111, 111]"
  "utf8_decode [0xC3, 0xA9] = [233]"
  "utf8_decode [0xE2, 0x82, 0xAC] = [8364]"
  "utf8_decode [0xF0, 0x9F, 0x98, 0x80] = [128512]"
  "utf8_decode [0x61, 0xFF, 0x62] = [97, 65533, 98]"
  "utf8_decode [0xE2, 0x82] = [65533]"
  "utf8_decode [0xC0, 0x80] = [65533, 65533]"
  "utf8_decode [0xE2, 0x28, 0xA1] = [65533, 40, 65533]"
  by (simp_all add: is_continuation_def cont_bits_def replacement_char_def)

lemma plain_decimal_examples:
  "plain_decimal ''12'' = Inr 12"
  "plain_decimal ''0'' = Inr 0"
  "plain_decimal ''a'' = Inl (ValueError (''invalid literal for int() with base 10: '' @ quote @ ''a'' @ quote))"
  by (simp_all add: plain_decimal_def is_digit_def digit_value_def)

lemma normalize_ws_examples:
  "normalize_ws [32, 97, 9, 10, 98, 32] = [97, 32, 98]"
  "normalize_ws [32, 10] = []"
  by (simp_all add: normalize_ws_def py_split_def is_space_def)

section \<open>The traversals visit the nodes of the tree in pre-order\<close>

lemma visit_symbols_filter:
  "visit_symbols st n out = out @ filter (is_symbol st) (ast_nodes n)"
  "visit_symbols_children st ns out = out @ filter (is_symbol st) (ast_nodes_list ns)"
  by (induction st n out and st ns out rule: visit_symbols_visit_symbols_children.induct)
     (simp_all add: is_symbol_def)

lemma visit_folds_filter:
  "list_all has_points (ast_nodes n) \<Longrightarrow>
     visit_folds n out = out @ filter spans_lines (ast_nodes n)"
  "list_all has_points (ast_nodes_list ns) \<Longrightarrow>
     visit_folds_children ns out = out @ filter spans_lines (ast_nodes_list ns)"
  by (induction n out and ns out rule: visit_folds_visit_folds_children.induct)
     (auto simp add: has_points_def spans_lines_def)

lemma visit_folds_points:
  "list_all has_points out \<Longrightarrow> list_all has_points (visit_folds n out)"
  "list_all has_points out \<Longrightarrow> list_all has_points (visit_folds_children ns out)"
  by (induction n out and ns out rule: visit_folds_visit_folds_children.induct)
     (auto simp add: has_points_def split: option.splits)

lemma walk_node_objects:
  "json_objects (JObj (walk_node n src)) =
     map (\<lambda>m. node_to_dict m src True default_max_text) (ast_nodes n)"
  "json_objects_list (walk_children ns src) =
     map (\<lambda>m. node_to_dict m src True default_max_text) (ast_nodes_list ns)"
  by (induction n src and ns src rule: walk_node_walk_children.induct)
     (simp_all add: node_to_dict_def Let_def split: prod.splits)

section \<open>The final sort\<close>

lemma point_le_iff: "point_le p q \<longleftrightarrow> p \<le> q"
  by (cases p; cases q) (auto simp add: point_le_def less_eq_prod_def)

lemma sorted_by_start_key:
  "sorted_wrt (\<lambda>m n. point_le (start_key m) (start_key n)) (sort_key start_key ns)"
proof -
  have "sorted (map start_key (sort_key start_key ns))"
    by (rule sorted_sort_key)
  then show ?thesis
    by (simp add: sorted_map point_le_iff)
qed

lemma sort_by_start_Inr:
  "list_all (\<lambda>n. start_point n \<noteq> None) ns \<Longrightarrow> sort_by_start ns = Inr (sort_key start_key ns)"
  by (simp add: sort_by_start_def)

lemma has_points_start:
  "list_all has_points ns \<Longrightarrow> list_all (\<lambda>n. start_point n \<noteq> None) ns"
  by (simp add: list_all_iff has_points_def)

text \<open>The sort in \<^verbatim>\<open>collect_folds\<close> never raises: only nodes with both points are
  collected.\<close>

lemma collect_folds_total:
  "collect_folds root = Inr (sort_key start_key (visit_folds root []))"
  unfolding collect_folds_def
  by (rule sort_by_start_Inr, rule has_points_start, rule visit_folds_points(1)) simp

lemma foo_tree_positioned: "positioned foo_tree"
  by (simp add: positioned_def foo_tree_def foo_function_def leaf_def has_points_def)

section \<open>The fold collector\<close>

lemma fold_records_explicit:
  "list_all has_points ns \<Longrightarrow>
     fold_records ns out =
       Inr (out @ map (\<lambda>n. JObj
         [(''type'', (case ntype n of None \<Rightarrow> JNull | Some t \<Rightarrow> JStr t)),
          (''start_point'',
             JArr [JInt (fst (the (start_point n))), JInt (snd (the (start_point n)))]),
          (''end_point'',
             JArr [JInt (fst (the (end_point n))), JInt (snd (the (end_point n)))]),
          (''start_byte'', JInt (case start_byte n of None \<Rightarrow> 0 | Some b \<Rightarrow> b)),
          (''end_byte'', JInt (case end_byte n of None \<Rightarrow> 0 | Some b \<Rightarrow> b))]) ns)"
proof (induction ns arbitrary: out)
  case Nil
  then show ?case by simp
next
  case (Cons n ns)
  from Cons.prems obtain sp ep where p: "start_point n = Some sp" "end_point n = Some ep"
    by (auto simp add: has_points_def)
  from Cons.prems have "list_all has_points ns" by simp
  from Cons.IH [OF this] p show ?case
    by (simp add: fold_record_def json_type_def json_point_def byte_or_zero_def)
qed

lemma sorted_by_start_point:
  "list_all (\<lambda>n. start_point n \<noteq> None) ns \<Longrightarrow>
     sorted_wrt (\<lambda>m n. point_le (the (start_point m)) (the (start_point n)))
       (sort_key start_key ns)"
  using sorted_by_start_key [of ns] by (simp add: start_key_def)

text \<open>
  Claim C1. On a tree whose nodes all have their points, the \<^verbatim>\<open>folds\<close> command
  prints one record (type, start point, end point, start byte, end byte) for each node,
  named or not, whose end row is strictly greater than its start row, each as often as
  the \<^verbatim>\<open>ast\<close> command renders it, and for no other node; they are nodes of the
  \<^verbatim>\<open>ast\<close> output; and the records stand in ascending order of
  \<open>(start_row, start_column)\<close>.
\<close>

theorem folds_exactly_multiline_sorted:
  assumes "positioned root"
  shows "\<exists>nodes.
           collect_folds root = Inr nodes
         \<and> cmd_folds (Some root) =
             Inr \<lparr>stdout =
                    [JArr (map (\<lambda>n. JObj
                       [(''type'', (case ntype n of None \<Rightarrow> JNull | Some t \<Rightarrow> JStr t)),
                        (''start_point'',
                           JArr [JInt (fst (the (start_point n))),
                                 JInt (snd (the (start_point n)))]),
                        (''end_point'',
                           JArr [JInt (fst (the (end_point n))),
                                 JInt (snd (the (end_point n)))]),
                        (''start_byte'', JInt (case start_byte n of None \<Rightarrow> 0 | Some b \<Rightarrow> b)),
                        (''end_byte'', JInt (case end_byte n of None \<Rightarrow> 0 | Some b \<Rightarrow> b))])
                       nodes)],
                  stderr = [], exit_code = 0\<rparr>
         \<and> mset nodes = mset (filter spans_lines (ast_nodes root))
         \<and> set nodes = {n \<in> set (ast_nodes root). spans_lines n}
         \<and> sorted_wrt (\<lambda>m n. point_le (the (start_point m)) (the (start_point n))) nodes
         \<and> list_all has_points nodes
         \<and> json_objects (JObj (walk_node root source_bytes)) =
             map (\<lambda>n. node_to_dict n source_bytes True default_max_text) (ast_nodes root)"
proof -
  let ?nodes = "sort_key start_key (visit_folds root [])"
  from assms have v: "visit_folds root [] = filter spans_lines (ast_nodes root)"
    by (simp add: positioned_def visit_folds_filter(1))
  have c: "collect_folds root = Inr ?nodes"
    by (rule collect_folds_total)
  have q: "list_all has_points (visit_folds root [])"
    by (rule visit_folds_points(1)) simp
  then have p: "list_all has_points ?nodes"
    by (simp add: list_all_iff)
  have m: "mset ?nodes = mset (filter spans_lines (ast_nodes root))"
    by (simp add: v)
  have s: "set ?nodes = {n \<in> set (ast_nodes root). spans_lines n}"
    by (auto simp add: v)
  have o: "sorted_wrt (\<lambda>m n. point_le (the (start_point m)) (the (start_point n))) ?nodes"
    using q by (intro sorted_by_start_point has_points_start)
  have f: "cmd_folds (Some root) =
      Inr \<lparr>stdout =
             [JArr (map (\<lambda>n. JObj
                [(''type'', (case ntype n of None \<Rightarrow> JNull | Some t \<Rightarrow> JStr t)),
                 (''start_point'',
                    JArr [JInt (fst (the (start_point n))), JInt (snd (the (start_point n)))]),
                 (''end_point'',
                    JArr [JInt (fst (the (end_point n))), JInt (snd (the (end_point n)))]),
                 (''start_byte'', JInt (case start_byte n of None \<Rightarrow> 0 | Some b \<Rightarrow> b)),
                 (''end_byte'', JInt (case end_byte n of None \<Rightarrow> 0 | Some b \<Rightarrow> b))])
                ?nodes)],
           stderr = [], exit_code = 0\<rparr>"
    by (simp add: cmd_folds_def c fold_records_explicit [OF p] printed_def)
  show ?thesis
    using c f m s o p walk_node_objects(1) [of root source_bytes]
    by blast
qed

theorem folds_exactly_multiline_sorted_witness:
  "positioned foo_tree
   \<and> collect_folds foo_tree = Inr [foo_tree, foo_function]
   \<and> filter spans_lines (ast_nodes foo_tree) = [foo_tree, foo_function]
   \<and> cmd_folds (Some foo_tree) =
       Inr \<lparr>stdout =
              [JArr [JObj [(''type'', JStr ''module''),
                           (''start_point'', JArr [JInt 0, JInt 0]),
                           (''end_point'', JArr [JInt 2, JInt 0]),
                           (''start_byte'', JInt 0), (''end_byte'', JInt 20)],
                     JObj [(''type'', JStr ''function_definition''),
                           (''start_point'', JArr [JInt 0, JInt 0]),
                           (''end_point'', JArr [JInt 1, JInt 8]),
                           (''start_byte'', JInt 0), (''end_byte'', JInt 19)]]],
            stderr = [], exit_code = 0\<rparr>"
proof -
  have c: "collect_folds foo_tree = Inr [foo_tree, foo_function]"
    by (simp add: collect_folds_def sort_by_start_def start_key_def foo_tree_def
        foo_function_def leaf_def)
  have f: "filter spans_lines (ast_nodes foo_tree) = [foo_tree, foo_function]"
    by (simp add: spans_lines_def foo_tree_def foo_function_def leaf_def)
  from folds_exactly_multiline_sorted [OF foo_tree_positioned, of foo_source] c
  have "cmd_folds (Some foo_tree) =
      Inr \<lparr>stdout =
             [JArr (map (\<lambda>n. JObj
                [(''type'', (case ntype n of None \<Rightarrow> JNull | Some t \<Rightarrow> JStr t)),
                 (''start_point'',
                    JArr [JInt (fst (the (start_point n))), JInt (snd (the (start_point n)))]),
                 (''end_point'',
                    JArr [JInt (fst (the (end_point n))), JInt (snd (the (end_point n)))]),
                 (''start_byte'', JInt (case start_byte n of None \<Rightarrow> 0 | Some b \<Rightarrow> b)),
                 (''end_byte'', JInt (case end_byte n of None \<Rightarrow> 0 | Some b \<Rightarrow> b))])
                [foo_tree, foo_function])],
           stderr = [], exit_code = 0\<rparr>"
    by auto
  then have "cmd_folds (Some foo_tree) =
       Inr \<lparr>stdout =
              [JArr [JObj [(''type'', JStr ''module''),
                           (''start_point'', JArr [JInt 0, JInt 0]),
                           (''end_point'', JArr [JInt 2, JInt 0]),
                           (''start_byte'', JInt 0), (''end_byte'', JInt 20)],
                     JObj [(''type'', JStr ''function_definition''),
                           (''start_point'', JArr [JInt 0, JInt 0]),
                           (''end_point'', JArr [JInt 1, JInt 8]),
                           (''start_byte'', JInt 0), (''end_byte'', JInt 19)]]],
            stderr = [], exit_code = 0\<rparr>"
    by (simp add: foo_tree_def foo_function_def leaf_def)
  with foo_tree_positioned c f show ?thesis
    by (intro conjI)
qed

section \<open>The symbol collector\<close>

lemma positioned_symbols_start:
  "positioned root \<Longrightarrow>
     list_all (\<lambda>n. start_point n \<noteq> None) (filter (is_symbol st) (ast_nodes root))"
  by (simp add: positioned_def list_all_iff has_points_def)

section \<open>Records with equal keys\<close>

text \<open>
  Claim C10. On a tree whose nodes all have their points, the records of the
  \<^verbatim>\<open>symbols\<close> and of the \<^verbatim>\<open>folds\<close> output that share a key
  \<open>(start_row, start_column)\<close> stand in the order in which the pre-order walk
  reaches their nodes: for every key, the sorted list restricted to that key is the
  pre-order collection restricted to it.
\<close>

theorem equal_keys_keep_preorder:
  assumes "positioned root"
  shows "\<exists>syms folds.
           collect_symbols root None = Inr syms
         \<and> collect_folds root = Inr folds
         \<and> (\<forall>k. filter (\<lambda>n. start_key n = k) syms =
                 filter (\<lambda>n. start_key n = k)
                   (filter (is_symbol DEFAULT_SYMBOL_NODE_TYPES) (ast_nodes root)))
         \<and> (\<forall>k. filter (\<lambda>n. start_key n = k) folds =
                 filter (\<lambda>n. start_key n = k) (filter spans_lines (ast_nodes root)))"
proof -
  let ?pre = "filter (is_symbol DEFAULT_SYMBOL_NODE_TYPES) (ast_nodes root)"
  have c: "collect_symbols root None = Inr (sort_key start_key ?pre)"
    using positioned_symbols_start [OF assms, of DEFAULT_SYMBOL_NODE_TYPES]
    by (simp add: collect_symbols_def visit_symbols_filter(1) sort_by_start_Inr)
  from assms have v: "visit_folds root [] = filter spans_lines (ast_nodes root)"
    by (simp add: positioned_def visit_folds_filter(1))
  have f: "collect_folds root = Inr (sort_key start_key (filter spans_lines (ast_nodes root)))"
    using collect_folds_total [of root] by (simp add: v)
  show ?thesis
    using c f sort_key_stable [of start_key _ ?pre]
      sort_key_stable [of start_key _ "filter spans_lines (ast_nodes root)"]
    by blast
qed

theorem equal_keys_keep_preorder_witness:
  "positioned foo_tree
   \<and> start_key foo_tree = (0, 0) \<and> start_key foo_function = (0, 0)
   \<and> (\<exists>folds. collect_folds foo_tree = Inr folds
         \<and> filter (\<lambda>n. start_key n = (0, 0)) folds = [foo_tree, foo_function])"
proof -
  have k: "start_key foo_tree = (0, 0)" "start_key foo_function = (0, 0)"
    by (simp_all add: start_key_def foo_tree_def foo_function_def leaf_def)
  have "filter (\<lambda>n. start_key n = (0, 0)) (filter spans_lines (ast_nodes foo_tree)) =
      [foo_tree, foo_function]"
    by (simp add: start_key_def spans_lines_def foo_tree_def foo_function_def leaf_def)
  with equal_keys_keep_preorder [OF foo_tree_positioned] foo_tree_positioned k
  show ?thesis by metis
qed

section \<open>Normalised text\<close>

lemma rstrip_ws_Nil: "rstrip_ws [] = []"
  by (simp add: rstrip_ws_def)

lemma rstrip_ws_Cons:
  "rstrip_ws (c # cs) = (if is_space c \<and> list_all is_space cs then [] else c # rstrip_ws cs)"
  by (auto simp add: rstrip_ws_def dropWhile_append list_all_iff)

lemma rstrip_ws_all_space: "list_all is_space cs \<Longrightarrow> rstrip_ws cs = []"
  by (induction cs) (simp_all add: rstrip_ws_Nil rstrip_ws_Cons)

lemma dropWhile_rstrip_ws: "dropWhile is_space (rstrip_ws cs) = rstrip_ws (dropWhile is_space cs)"
proof (induction cs)
  case Nil
  then show ?case by (simp add: rstrip_ws_Nil)
next
  case (Cons c cs)
  show ?case
  proof (cases "list_all is_space cs")
    case True
    then have "dropWhile is_space cs = []" by (simp add: list_all_iff)
    with True show ?thesis
      by (cases "is_space c")
        (simp_all add: rstrip_ws_Cons rstrip_ws_Nil rstrip_ws_all_space
           del: dropWhile_eq_Nil_conv)
  next
    case False
    with Cons show ?thesis by (simp add: rstrip_ws_Cons)
  qed
qed

lemma split_from_Nil_iff: "split_from w cs = [] \<longleftrightarrow> w = [] \<and> list_all is_space cs"
  by (induction cs arbitrary: w) auto

lemma py_join_Cons: "py_join sep (w # ws) = (if ws = [] then w else w @ sep @ py_join sep ws)"
  by (cases ws) simp_all

text \<open>The scanner of \<^verbatim>\<open>split\<close>, started inside a word \<open>w\<close> or between words.\<close>

lemma join_split_from:
  "py_join [32] (split_from w s) =
     (if w = [] then collapse_runs (rstrip_ws (dropWhile is_space s))
      else w @ collapse_runs (rstrip_ws s))"
proof (induction s arbitrary: w)
  case Nil
  then show ?case by (simp add: rstrip_ws_Nil)
next
  case (Cons c cs)
  show ?case
  proof (cases "is_space c")
    case sp: True
    show ?thesis
    proof (cases "w = []")
      case True
      with sp Cons [of "[]"] show ?thesis by simp
    next
      case False
      show ?thesis
      proof (cases "list_all is_space cs")
        case True
        with sp False show ?thesis
          by (simp add: py_join_Cons split_from_Nil_iff rstrip_ws_Cons)
      next
        case nsp: False
        with sp False Cons [of "[]"] show ?thesis
          by (simp add: py_join_Cons split_from_Nil_iff rstrip_ws_Cons dropWhile_rstrip_ws)
      qed
    qed
  next
    case False
    with Cons [of "w @ [c]"] show ?thesis
      by (simp add: rstrip_ws_Cons)
  qed
qed

lemma normalize_ws_collapse: "normalize_ws s = collapse_runs (strip_ws s)"
  by (simp add: normalize_ws_def py_split_def strip_ws_def join_split_from)

lemma truncate_text_120:
  "truncate_text 120 t = (if length t > 120 then take 117 t @ [46, 46, 46] else t)"
  by (simp add: truncate_text_def py_slice_def slice_index_def)

lemma node_to_dict_text:
  "map_of (node_to_dict n src True mt) ''text'' = Some (JText (node_text n src mt))"
  by (cases "node_points n") (simp add: node_to_dict_def update_conv')

lemma walk_node_text:
  "json_field (JObj (walk_node n src)) ''text'' = Some (JText (node_text n src default_max_text))"
  by (cases n) (simp add: json_field_def update_conv' node_to_dict_text)

text \<open>
  Claim C5, as the code has it. The \<^verbatim>\<open>text\<close> of a node in the \<^verbatim>\<open>ast\<close> output is
  the slice of the source buffer from the start byte to the end byte of the node,
  decoded as UTF-8 with replacement, with the white space at both ends removed and
  every other run of white space collapsed to one space; when that has more than 120
  characters, the text is its first 117 characters followed by three dots, 120
  characters in all.
\<close>

theorem ast_text_stripped_collapsed_truncated:
  "let raw = utf8_decode (py_slice source_bytes (byte_or_zero (start_byte n))
                            (byte_or_zero (end_byte n)));
       norm = collapse_runs (strip_ws raw);
       text = (if length norm > 120 then take 117 norm @ [46, 46, 46] else norm)
   in map_of (node_to_dict n source_bytes True default_max_text) ''text'' = Some (JText text)
    \<and> json_field (JObj (walk_node n source_bytes)) ''text'' = Some (JText text)
    \<and> length text = min 120 (length norm)"
proof -
  have "node_text n source_bytes default_max_text =
      (let norm = collapse_runs (strip_ws (utf8_decode
             (py_slice source_bytes (byte_or_zero (start_byte n)) (byte_or_zero (end_byte n)))))
       in if length norm > 120 then take 117 norm @ [46, 46, 46] else norm)"
    by (simp add: node_text_def default_max_text_def truncate_text_120 normalize_ws_collapse Let_def)
  then show ?thesis
    by (simp add: node_to_dict_text walk_node_text Let_def)
qed

text \<open>
  Claim C5 as stated fails: for the source \<^verbatim>\<open>x = 1\n\<close> and a node over all of it the
  emitted text is \<^verbatim>\<open>x = 1\<close>, while collapsing the runs of white space of the slice
  to single spaces leaves a space at the end.
\<close>

theorem ast_text_keeps_no_outer_space_counterexample:
  "json_field (JObj (walk_node assign_module assign_source)) ''text'' =
     Some (JText [120, 32, 61, 32, 49])
   \<and> collapse_runs (utf8_decode (py_slice assign_source 0 6)) = [120, 32, 61, 32, 49, 32]
   \<and> start_byte assign_module = Some 0 \<and> end_byte assign_module = Some 6"
  by (simp add: json_field_def assign_module_def leaf_def node_to_dict_def node_points_def
      update_conv' node_text_def byte_or_zero_def default_max_text_def truncate_text_def
      assign_source_def bytes_of_def newline_def py_slice_def slice_index_def
      normalize_ws_def py_split_def is_space_def)

section \<open>The name of a symbol\<close>

lemma contains_iff: "contains sub s \<longleftrightarrow> (\<exists>p q. s = p @ sub @ q)"
proof (induction s)
  case Nil
  then show ?case by auto
next
  case (Cons c cs)
  have "take (length sub) (c # cs) = sub \<longleftrightarrow> (\<exists>q. c # cs = sub @ q)"
    by (metis append_eq_conv_conj)
  moreover have "(\<exists>p q. c # cs = p @ sub @ q) \<longleftrightarrow>
      (\<exists>q. c # cs = sub @ q) \<or> (\<exists>p q. cs = p @ sub @ q)"
  proof
    assume "\<exists>p q. c # cs = p @ sub @ q"
    then obtain p q where e: "c # cs = p @ sub @ q" by blast
    show "(\<exists>q. c # cs = sub @ q) \<or> (\<exists>p q. cs = p @ sub @ q)"
    proof (cases p)
      case Nil
      with e show ?thesis by auto
    next
      case (Cons a p')
      with e show ?thesis by auto
    qed
  next
    assume "(\<exists>q. c # cs = sub @ q) \<or> (\<exists>p q. cs = p @ sub @ q)"
    then show "\<exists>p q. c # cs = p @ sub @ q"
    proof
      assume "\<exists>q. c # cs = sub @ q"
      then show ?thesis by (metis append_Nil)
    next
      assume "\<exists>p q. cs = p @ sub @ q"
      then show ?thesis by (metis append_Cons)
    qed
  qed
  ultimately show ?case using Cons by simp
qed

lemma name_like_iff: "name_like (child_type c) = names_symbol c"
  by (auto simp add: name_like_def names_symbol_def)

lemma find_name_first:
  "find_name src None cs =
     (case find (\<lambda>c. names_symbol c \<and> child_text src c \<noteq> None) cs of
        None \<Rightarrow> None
      | Some c \<Rightarrow> child_text src c)"
  by (induction cs)
     (auto simp add: name_like_iff [unfolded child_type_def] child_text_def split: option.splits)

lemma symbol_record_name:
  "json_field (symbol_record n src) ''name'' =
     Some (json_name (find_name src None (children n)))"
  by (simp add: json_field_def symbol_record_def update_conv')

lemma find_all_extractable:
  "list_all (\<lambda>c. child_text src c \<noteq> None) cs \<Longrightarrow>
     find (\<lambda>c. names_symbol c \<and> child_text src c \<noteq> None) cs = find names_symbol cs"
  by (induction cs) auto

text \<open>
  Claim C3, as the code has it. The \<^verbatim>\<open>name\<close> of a symbol record is the normalised
  text of the first direct child, in child order, whose type contains \<^verbatim>\<open>name\<close> or
  \<^verbatim>\<open>identifier\<close> and whose text can be extracted, and null when there is no such
  child. When the text of every direct child can be extracted, that is the first child
  whose type contains one of the two strings.
\<close>

theorem symbol_name_first_extracted_child:
  "json_field (symbol_record n source_bytes) ''name'' =
     Some (json_name (first_extracted_name source_bytes n))
   \<and> (\<forall>c. names_symbol c \<longleftrightarrow>
          (\<exists>p q. child_type c = p @ ''name'' @ q)
        \<or> (\<exists>p q. child_type c = p @ ''identifier'' @ q))
   \<and> (list_all (\<lambda>c. child_text source_bytes c \<noteq> None) (children n) \<longrightarrow>
        first_extracted_name source_bytes n = claimed_name source_bytes n)"
proof -
  have a: "json_field (symbol_record n source_bytes) ''name'' =
      Some (json_name (first_extracted_name source_bytes n))"
    by (simp add: symbol_record_name find_name_first first_extracted_name_def)
  have b: "names_symbol c \<longleftrightarrow>
      (\<exists>p q. child_type c = p @ ''name'' @ q) \<or> (\<exists>p q. child_type c = p @ ''identifier'' @ q)"
    for c
    unfolding names_symbol_def contains_iff ..
  have c: "first_extracted_name source_bytes n = claimed_name source_bytes n"
    if "list_all (\<lambda>c. child_text source_bytes c \<noteq> None) (children n)"
    using find_all_extractable [OF that]
    by (simp add: first_extracted_name_def claimed_name_def)
  from a b c show ?thesis by blast
qed

theorem symbol_name_first_extracted_child_witness:
  "list_all (\<lambda>c. child_text foo_source c \<noteq> None) (children foo_function)
   \<and> json_field (symbol_record foo_function foo_source) ''name'' = Some (JText [102, 111, 111])"
proof -
  have h: "list_all (\<lambda>c. child_text foo_source c \<noteq> None) (children foo_function)"
    by (simp add: foo_function_def leaf_def child_text_def)
  have "claimed_name foo_source foo_function = Some [102, 111, 111]"
    by (simp add: claimed_name_def foo_function_def leaf_def names_symbol_def child_type_def
        child_text_def foo_source_def bytes_of_def newline_def py_slice_def slice_index_def
        normalize_ws_def py_split_def is_space_def)
  with h symbol_name_first_extracted_child [of foo_function foo_source] show ?thesis
    by (simp add: json_name_def)
qed

text \<open>
  Claim C3 as stated fails: when the text of the first matching child cannot be
  extracted, the name is not null but the text of the next matching child.
\<close>

theorem symbol_name_first_match_counterexample:
  "json_field (symbol_record broken_symbol foo_source) ''name'' = Some (JText [102, 111, 111])
   \<and> find names_symbol (children broken_symbol) =
       Some (Node (Some ''identifier'') (Some True) (Some (0, 4)) (Some (0, 7)) None None [])
   \<and> json_name (claimed_name foo_source broken_symbol) = JNull"
  by (simp add: json_field_def symbol_record_def update_conv' broken_symbol_def leaf_def
      name_like_def names_symbol_def child_type_def claimed_name_def child_text_def
      foo_source_def bytes_of_def newline_def py_slice_def slice_index_def
      normalize_ws_def py_split_def is_space_def json_name_def)

section \<open>The records of the symbol collector\<close>

lemma is_symbol_allow_listed: "is_symbol DEFAULT_SYMBOL_NODE_TYPES n = allow_listed n"
  by (cases "ntype n") (auto simp add: is_symbol_def in_types_def allow_listed_def)

lemma allow_listed_iff:
  "allow_listed n \<longleftrightarrow> (\<exists>t. t \<in> DEFAULT_SYMBOL_NODE_TYPES \<and> ntype n = Some t)"
  by (auto simp add: allow_listed_def)

lemma symbol_record_explicit:
  assumes "has_points n"
  shows "symbol_record n source_bytes = JObj
                       [(''type'', (case ntype n of None \<Rightarrow> JNull | Some t \<Rightarrow> JStr t)),
                        (''named'', JBool (is_named n = Some True)),
                        (''start_point'',
                           JArr [JInt (fst (the (start_point n))),
                                 JInt (snd (the (start_point n)))]),
                        (''end_point'',
                           JArr [JInt (fst (the (end_point n))),
                                 JInt (snd (the (end_point n)))]),
                        (''start_byte'', JInt (case start_byte n of None \<Rightarrow> 0 | Some b \<Rightarrow> b)),
                        (''end_byte'', JInt (case end_byte n of None \<Rightarrow> 0 | Some b \<Rightarrow> b)),
                        (''name'',
                           (case first_extracted_name source_bytes n of
                              None \<Rightarrow> JNull
                            | Some t \<Rightarrow> JText t))]"
proof -
  from assms obtain sp ep where p: "start_point n = Some sp" "end_point n = Some ep"
    by (auto simp add: has_points_def)
  have "(case is_named n of None \<Rightarrow> False | Some b \<Rightarrow> b) = (is_named n = Some True)"
    by (cases "is_named n") auto
  with p show ?thesis
    by (simp add: symbol_record_def node_to_dict_def node_points_def json_type_def
        json_point_def byte_or_zero_def json_name_def find_name_first
        first_extracted_name_def)
qed

text \<open>
  Claim C2. On a tree whose nodes all have their points, the \<^verbatim>\<open>symbols\<close> command
  collects, in pre-order, exactly the nodes whose type is one of the strings of the
  built-in allow-list, each as often as the tree holds it; it prints one record for
  each of them, in ascending order of \<open>(start_row, start_column)\<close>, and the
  \<^verbatim>\<open>type\<close> of every record is a string of the allow-list.
\<close>

theorem symbols_exactly_allow_listed_sorted:
  assumes "positioned root"
  shows "visit_symbols DEFAULT_SYMBOL_NODE_TYPES root [] = filter allow_listed (ast_nodes root)
       \<and> (\<exists>syms.
             collect_symbols root None = Inr syms
           \<and> mset syms = mset (filter allow_listed (ast_nodes root))
           \<and> set syms =
               {n \<in> set (ast_nodes root).
                  \<exists>t. t \<in> DEFAULT_SYMBOL_NODE_TYPES \<and> ntype n = Some t}
           \<and> sorted_wrt (\<lambda>m n. point_le (the (start_point m)) (the (start_point n))) syms
           \<and> cmd_symbols (Some root) source_bytes =
               Inr \<lparr>stdout =
                      [JArr (map (\<lambda>n. JObj
                       [(''type'', (case ntype n of None \<Rightarrow> JNull | Some t \<Rightarrow> JStr t)),
                        (''named'', JBool (is_named n = Some True)),
                        (''start_point'',
                           JArr [JInt (fst (the (start_point n))),
                                 JInt (snd (the (start_point n)))]),
                        (''end_point'',
                           JArr [JInt (fst (the (end_point n))),
                                 JInt (snd (the (end_point n)))]),
                        (''start_byte'', JInt (case start_byte n of None \<Rightarrow> 0 | Some b \<Rightarrow> b)),
                        (''end_byte'', JInt (case end_byte n of None \<Rightarrow> 0 | Some b \<Rightarrow> b)),
                        (''name'',
                           (case first_extracted_name source_bytes n of
                              None \<Rightarrow> JNull
                            | Some t \<Rightarrow> JText t))])
                         syms)],
                    stderr = [], exit_code = 0\<rparr>
           \<and> list_all
                 (\<lambda>n. \<exists>t. t \<in> DEFAULT_SYMBOL_NODE_TYPES \<and> ntype n = Some t) syms)"
proof -
  let ?pre = "filter allow_listed (ast_nodes root)"
  let ?syms = "sort_key start_key ?pre"
  have v: "visit_symbols DEFAULT_SYMBOL_NODE_TYPES root [] = ?pre"
    by (simp add: visit_symbols_filter(1) is_symbol_allow_listed [abs_def])
  from assms have h: "list_all has_points ?pre"
    by (simp add: positioned_def list_all_iff)
  then have st: "list_all (\<lambda>n. start_point n \<noteq> None) ?pre"
    by (rule has_points_start)
  have c: "collect_symbols root None = Inr ?syms"
    using st by (simp add: collect_symbols_def v sort_by_start_Inr)
  have m: "mset ?syms = mset ?pre"
    by simp
  have s: "set ?syms =
      {n \<in> set (ast_nodes root). \<exists>t. t \<in> DEFAULT_SYMBOL_NODE_TYPES \<and> ntype n = Some t}"
    by (auto simp add: allow_listed_iff)
  have o: "sorted_wrt (\<lambda>m n. point_le (the (start_point m)) (the (start_point n))) ?syms"
    using st by (rule sorted_by_start_point)
  from h have h': "list_all has_points ?syms"
    by (simp add: list_all_iff)
  then have "map (\<lambda>n. symbol_record n source_bytes) ?syms =
      map (\<lambda>n. JObj
                       [(''type'', (case ntype n of None \<Rightarrow> JNull | Some t \<Rightarrow> JStr t)),
                        (''named'', JBool (is_named n = Some True)),
                        (''start_point'',
                           JArr [JInt (fst (the (start_point n))),
                                 JInt (snd (the (start_point n)))]),
                        (''end_point'',
                           JArr [JInt (fst (the (end_point n))),
                                 JInt (snd (the (end_point n)))]),
                        (''start_byte'', JInt (case start_byte n of None \<Rightarrow> 0 | Some b \<Rightarrow> b)),
                        (''end_byte'', JInt (case end_byte n of None \<Rightarrow> 0 | Some b \<Rightarrow> b)),
                        (''name'',
                           (case first_extracted_name source_bytes n of
                              None \<Rightarrow> JNull
                            | Some t \<Rightarrow> JText t))]) ?syms"
    by (intro map_cong refl symbol_record_explicit) (simp add: list_all_iff)
  then have p: "cmd_symbols (Some root) source_bytes =
      Inr \<lparr>stdout =
             [JArr (map (\<lambda>n. JObj
                       [(''type'', (case ntype n of None \<Rightarrow> JNull | Some t \<Rightarrow> JStr t)),
                        (''named'', JBool (is_named n = Some True)),
                        (''start_point'',
                           JArr [JInt (fst (the (start_point n))),
                                 JInt (snd (the (start_point n)))]),
                        (''end_point'',
                           JArr [JInt (fst (the (end_point n))),
                                 JInt (snd (the (end_point n)))]),
                        (''start_byte'', JInt (case start_byte n of None \<Rightarrow> 0 | Some b \<Rightarrow> b)),
                        (''end_byte'', JInt (case end_byte n of None \<Rightarrow> 0 | Some b \<Rightarrow> b)),
                        (''name'',
                           (case first_extracted_name source_bytes n of
                              None \<Rightarrow> JNull
                            | Some t \<Rightarrow> JText t))])
                ?syms)],
           stderr = [], exit_code = 0\<rparr>"
    by (simp add: cmd_symbols_def c printed_def)
  have t: "list_all (\<lambda>n. \<exists>t. t \<in> DEFAULT_SYMBOL_NODE_TYPES \<and> ntype n = Some t) ?syms"
    by (simp add: list_all_iff allow_listed_iff)
  show ?thesis
    using v c m s o p t by blast
qed

theorem symbols_exactly_allow_listed_sorted_witness:
  "positioned foo_tree
   \<and> filter allow_listed (ast_nodes foo_tree) = [foo_function]
   \<and> collect_symbols foo_tree None = Inr [foo_function]
   \<and> cmd_symbols (Some foo_tree) foo_source =
       Inr \<lparr>stdout =
              [JArr [JObj [(''type'', JStr ''function_definition''),
                           (''named'', JBool True),
                           (''start_point'', JArr [JInt 0, JInt 0]),
                           (''end_point'', JArr [JInt 1, JInt 8]),
                           (''start_byte'', JInt 0), (''end_byte'', JInt 19),
                           (''name'', JText [102, 111, 111])]]],
            stderr = [], exit_code = 0\<rparr>"
proof -
  have f: "filter allow_listed (ast_nodes foo_tree) = [foo_function]"
    by (simp add: allow_listed_def DEFAULT_SYMBOL_NODE_TYPES_def foo_tree_def
        foo_function_def leaf_def)
  have n: "first_extracted_name foo_source foo_function = Some [102, 111, 111]"
    by (simp add: first_extracted_name_def foo_function_def leaf_def names_symbol_def
        child_type_def child_text_def foo_source_def bytes_of_def newline_def py_slice_def
        slice_index_def normalize_ws_def py_split_def is_space_def)
  from symbols_exactly_allow_listed_sorted [OF foo_tree_positioned, of foo_source]
  obtain syms where
    c: "collect_symbols foo_tree None = Inr syms"
    and m: "mset syms = mset (filter allow_listed (ast_nodes foo_tree))"
    and p: "cmd_symbols (Some foo_tree) foo_source =
      Inr \<lparr>stdout =
             [JArr (map (\<lambda>n. JObj
                       [(''type'', (case ntype n of None \<Rightarrow> JNull | Some t \<Rightarrow> JStr t)),
                        (''named'', JBool (is_named n = Some True)),
                        (''start_point'',
                           JArr [JInt (fst (the (start_point n))),
                                 JInt (snd (the (start_point n)))]),
                        (''end_point'',
                           JArr [JInt (fst (the (end_point n))),
                                 JInt (snd (the (end_point n)))]),
                        (''start_byte'', JInt (case start_byte n of None \<Rightarrow> 0 | Some b \<Rightarrow> b)),
                        (''end_byte'', JInt (case end_byte n of None \<Rightarrow> 0 | Some b \<Rightarrow> b)),
                        (''name'',
                           (case first_extracted_name foo_source n of
                              None \<Rightarrow> JNull
                            | Some t \<Rightarrow> JText t))])
                syms)],
           stderr = [], exit_code = 0\<rparr>"
    by blast
  from m f have e: "syms = [foo_function]"
    by simp
  from p have "cmd_symbols (Some foo_tree) foo_source =
       Inr \<lparr>stdout =
              [JArr [JObj [(''type'', JStr ''function_definition''),
                           (''named'', JBool True),
                           (''start_point'', JArr [JInt 0, JInt 0]),
                           (''end_point'', JArr [JInt 1, JInt 8]),
                           (''start_byte'', JInt 0), (''end_byte'', JInt 19),
                           (''name'', JText [102, 111, 111])]]],
            stderr = [], exit_code = 0\<rparr>"
    unfolding e by (simp add: n) (simp add: foo_function_def leaf_def)
  with foo_tree_positioned f c e show ?thesis
    by simp
qed

section \<open>Exit statuses of \<^verbatim>\<open>main\<close>\<close>

lemma example_env_loads: "load_language (example_env i r) ''python'' = Inr (LanguageObj 1)"
  by (simp add: load_language_def load_language_from_package_def example_env_def python_module_def)

lemma example_env_parser:
  "make_parser_for_language (example_env i r) (LanguageObj 1) = Inr 0"
  by (simp add: make_parser_for_language_def example_env_def)



lemma cmd_exit_codes:
  "cmd_ast root src = Inr out \<Longrightarrow> exit_code out = 0"
  "cmd_symbols root src = Inr out \<Longrightarrow> exit_code out = 0"
  "cmd_folds root = Inr out \<Longrightarrow> exit_code out = 0"
  "cmd_node_at e root src as = Inr out \<Longrightarrow> exit_code out \<in> {0, 7, 8}"
  by (auto simp add: cmd_ast_def cmd_symbols_def cmd_folds_def cmd_node_at_def printed_def
      exited_def split: option.splits sum.splits if_splits)

lemma main_after_parser:
  assumes "load_language e (lang a) = Inr l" "make_parser_for_language e l = Inr p"
    and "main e a = Inr out"
  shows "exit_code out \<in> {0, 7, 8}"
proof (cases "cmd a")
  case Ast
  with assms show ?thesis by (auto simp add: main_def Let_def dest: cmd_exit_codes(1))
next
  case NodeAt
  with assms show ?thesis by (auto simp add: main_def Let_def dest: cmd_exit_codes(4))
next
  case Symbols
  with assms show ?thesis by (auto simp add: main_def Let_def dest: cmd_exit_codes(2))
next
  case Folds
  with assms show ?thesis by (auto simp add: main_def Let_def dest: cmd_exit_codes(3))
qed

lemma main_exit_4:
  "(\<exists>out. main e a = Inr out \<and> exit_code out = 4) \<longleftrightarrow> (\<exists>err. load_language e (lang a) = Inl err)"
proof (cases "load_language e (lang a)")
  case (Inl err)
  then show ?thesis by (simp add: main_def exited_def)
next
  case l: (Inr l)
  show ?thesis
  proof (cases "make_parser_for_language e l")
    case (Inl err)
    with l show ?thesis by (simp add: main_def exited_def)
  next
    case (Inr p)
    with l main_after_parser [OF l Inr] show ?thesis by fastforce
  qed
qed

lemma load_language_fails_iff:
  "(\<exists>err. load_language e name = Inl err) \<longleftrightarrow>
      (\<exists>err. import_module e (''tree_sitter_'' @ name) = Inl err)
    \<or> (\<exists>m. import_module e (''tree_sitter_'' @ name) = Inr m
          \<and> (language_attr m = None \<or> language_attr m = Some NotCallable
             \<or> (\<exists>err. language_attr m = Some (Callable (Inl err)))))"
proof (cases "import_module e (''tree_sitter_'' @ name)")
  case (Inl err)
  then show ?thesis
    by (simp add: load_language_def load_language_from_package_def)
next
  case m: (Inr m)
  show ?thesis
  proof (cases "language_attr m")
    case None
    with m show ?thesis
      by (simp add: load_language_def load_language_from_package_def)
  next
    case (Some ep)
    show ?thesis
    proof (cases ep)
      case NotCallable
      with m Some show ?thesis
        by (simp add: load_language_def load_language_from_package_def)
    next
      case (Callable r)
      show ?thesis
      proof (cases r)
        case (Inl err)
        with m Some Callable show ?thesis
          by (simp add: load_language_def load_language_from_package_def)
      next
        case (Inr obj)
        with m Some Callable show ?thesis
          by (cases obj)
            (simp_all add: load_language_def load_language_from_package_def split: sum.splits)
      qed
    qed
  qed
qed


text \<open>
  Claim C6. Once the grammar is loaded and the parser is built, the \<^verbatim>\<open>node_at\<close>
  command with fewer than two positional arguments ends with status 7, and with two
  arguments of which one is not an integer (\<^verbatim>\<open>int\<close> raises on it) with status 8; in
  both cases it prints nothing and writes one line to standard error.
\<close>

theorem node_at_argument_errors:
  assumes "load_language e (lang a) = Inr l"
    and "make_parser_for_language e l = Inr p"
    and "cmd a = NodeAt"
  shows "(length (args a) < 2 \<longrightarrow>
            main e a = Inr \<lparr>stdout = [], stderr = ''node_at requires ROW COL'' @ [CHR 0x0A],
                            exit_code = 7\<rparr>)
       \<and> (2 \<le> length (args a)
            \<and> ((\<exists>err. int_of_str e (args a ! 0) = Inl err)
               \<or> (\<exists>err. int_of_str e (args a ! 1) = Inl err)) \<longrightarrow>
            main e a = Inr \<lparr>stdout = [], stderr = ''Invalid ROW/COL'' @ [CHR 0x0A],
                            exit_code = 8\<rparr>)"
  using assms
  by (auto simp add: main_def cmd_node_at_def exited_def newline_def Let_def split: sum.splits)

theorem node_at_argument_errors_witness:
  "load_language (example_env foo_source (Some foo_tree)) (lang (python_argv NodeAt [''1'']))
     = Inr (LanguageObj 1)
   \<and> make_parser_for_language (example_env foo_source (Some foo_tree)) (LanguageObj 1) = Inr 0
   \<and> length (args (python_argv NodeAt [''1''])) < 2
   \<and> main (example_env foo_source (Some foo_tree)) (python_argv NodeAt [''1'']) =
       Inr \<lparr>stdout = [], stderr = ''node_at requires ROW COL'' @ [CHR 0x0A], exit_code = 7\<rparr>
   \<and> int_of_str (example_env foo_source (Some foo_tree))
         (args (python_argv NodeAt [''a'', ''b'']) ! 0) =
       Inl (ValueError (''invalid literal for int() with base 10: '' @ quote @ ''a'' @ quote))
   \<and> main (example_env foo_source (Some foo_tree)) (python_argv NodeAt [''a'', ''b'']) =
       Inr \<lparr>stdout = [], stderr = ''Invalid ROW/COL'' @ [CHR 0x0A], exit_code = 8\<rparr>
   \<and> int_of_str (example_env foo_source (Some foo_tree))
         (args (python_argv NodeAt [''0'', ''x'']) ! 1) =
       Inl (ValueError (''invalid literal for int() with base 10: '' @ quote @ ''x'' @ quote))
   \<and> main (example_env foo_source (Some foo_tree)) (python_argv NodeAt [''0'', ''x'']) =
       Inr \<lparr>stdout = [], stderr = ''Invalid ROW/COL'' @ [CHR 0x0A], exit_code = 8\<rparr>"
proof -
  let ?e = "example_env foo_source (Some foo_tree)"
  have l: "load_language ?e (lang (python_argv NodeAt as)) = Inr (LanguageObj 1)" for as
    by (simp add: python_argv_def example_env_loads)
  have p: "make_parser_for_language ?e (LanguageObj 1) = Inr 0"
    by (rule example_env_parser)
  have c: "cmd (python_argv NodeAt as) = NodeAt" for as
    by (simp add: python_argv_def)
  have i: "int_of_str ?e (args (python_argv NodeAt [''a'', ''b'']) ! 0) =
      Inl (ValueError (''invalid literal for int() with base 10: '' @ quote @ ''a'' @ quote))"
    by (simp add: python_argv_def example_env_def plain_decimal_def is_digit_def)
  have j: "int_of_str ?e (args (python_argv NodeAt [''0'', ''x'']) ! 1) =
      Inl (ValueError (''invalid literal for int() with base 10: '' @ quote @ ''x'' @ quote))"
    by (simp add: python_argv_def example_env_def plain_decimal_def is_digit_def)
  have n: "length (args (python_argv NodeAt [''1''])) < 2"
    "2 \<le> length (args (python_argv NodeAt [''a'', ''b'']))"
    "2 \<le> length (args (python_argv NodeAt [''0'', ''x'']))"
    by (simp_all add: python_argv_def)
  from node_at_argument_errors [OF l p c, of "[''1'']", THEN conjunct1] n(1)
  have 1: "main ?e (python_argv NodeAt [''1'']) =
      Inr \<lparr>stdout = [], stderr = ''node_at requires ROW COL'' @ [CHR 0x0A], exit_code = 7\<rparr>"
    by blast
  from node_at_argument_errors [OF l p c, of "[''a'', ''b'']", THEN conjunct2] n(2) i
  have 2: "main ?e (python_argv NodeAt [''a'', ''b'']) =
      Inr \<lparr>stdout = [], stderr = ''Invalid ROW/COL'' @ [CHR 0x0A], exit_code = 8\<rparr>"
    by blast
  from node_at_argument_errors [OF l p c, of "[''0'', ''x'']", THEN conjunct2] n(3) j
  have 3: "main ?e (python_argv NodeAt [''0'', ''x'']) =
      Inr \<lparr>stdout = [], stderr = ''Invalid ROW/COL'' @ [CHR 0x0A], exit_code = 8\<rparr>"
    by blast
  from l [of "[''1'']"] p n(1) 1 i 2 j 3 show ?thesis
    by (intro conjI)
qed



text \<open>
  Claim C9. Loading the grammar fails exactly when the package cannot be imported, when
  it has no callable \<^verbatim>\<open>language\<close>, or when calling it raises; then the run ends with
  status 4, and with no other cause. Otherwise an instance of \<^verbatim>\<open>Language\<close> is
  returned as it is, a raw handle is wrapped by the constructor, and a raw handle that
  the constructor rejects is returned unchanged.
\<close>

theorem language_load_failures_and_shapes:
  "((\<exists>err. load_language e name = Inl err) \<longleftrightarrow>
      (\<exists>err. import_module e (''tree_sitter_'' @ name) = Inl err)
    \<or> (\<exists>m. import_module e (''tree_sitter_'' @ name) = Inr m
          \<and> (language_attr m = None \<or> language_attr m = Some NotCallable
             \<or> (\<exists>err. language_attr m = Some (Callable (Inl err))))))
 \<and> (\<forall>m h. import_module e (''tree_sitter_'' @ name) = Inr m
        \<and> language_attr m = Some (Callable (Inr (LanguageObj h)))
      \<longrightarrow> load_language e name = Inr (LanguageObj h))
 \<and> (\<forall>m h w. import_module e (''tree_sitter_'' @ name) = Inr m
        \<and> language_attr m = Some (Callable (Inr (RawObj h))) \<and> Language e h = Inr w
      \<longrightarrow> load_language e name = Inr (LanguageObj w))
 \<and> (\<forall>m h err. import_module e (''tree_sitter_'' @ name) = Inr m
        \<and> language_attr m = Some (Callable (Inr (RawObj h))) \<and> Language e h = Inl err
      \<longrightarrow> load_language e name = Inr (RawObj h))
 \<and> ((\<exists>out. main e a = Inr out \<and> exit_code out = 4) \<longleftrightarrow>
      (\<exists>err. load_language e (lang a) = Inl err))"
proof -
  have 1: "(\<exists>err. load_language e name = Inl err) \<longleftrightarrow>
      (\<exists>err. import_module e (''tree_sitter_'' @ name) = Inl err)
    \<or> (\<exists>m. import_module e (''tree_sitter_'' @ name) = Inr m
          \<and> (language_attr m = None \<or> language_attr m = Some NotCallable
             \<or> (\<exists>err. language_attr m = Some (Callable (Inl err)))))"
    by (rule load_language_fails_iff)
  have 2: "load_language e name = Inr (LanguageObj h)"
    if "import_module e (''tree_sitter_'' @ name) = Inr m"
      "language_attr m = Some (Callable (Inr (LanguageObj h)))" for m h
    using that by (simp add: load_language_def load_language_from_package_def)
  have 3: "load_language e name = Inr (LanguageObj w)"
    if "import_module e (''tree_sitter_'' @ name) = Inr m"
      "language_attr m = Some (Callable (Inr (RawObj h)))" "Language e h = Inr w" for m h w
    using that by (simp add: load_language_def load_language_from_package_def)
  have 4: "load_language e name = Inr (RawObj h)"
    if "import_module e (''tree_sitter_'' @ name) = Inr m"
      "language_attr m = Some (Callable (Inr (RawObj h)))" "Language e h = Inl err" for m h err
    using that by (simp add: load_language_def load_language_from_package_def)
  have 5: "(\<exists>out. main e a = Inr out \<and> exit_code out = 4) \<longleftrightarrow>
      (\<exists>err. load_language e (lang a) = Inl err)"
    by (rule main_exit_4)
  show ?thesis
    apply (intro conjI allI impI)
        apply (rule 1)
       apply (erule conjE, erule (1) 2)
      apply (elim conjE, erule (2) 3)
     apply (elim conjE, erule (2) 4)
    apply (rule 5)
    done
qed

theorem language_load_failures_and_shapes_witness:
  "import_module (example_env foo_source (Some foo_tree)) (''tree_sitter_'' @ ''ruby'') =
     Inl (OtherException ''No module named tree_sitter_ruby'')
 \<and> (\<exists>out. main (example_env foo_source (Some foo_tree)) \<lparr>lang = ''ruby'', cmd = Ast, args = []\<rparr>
        = Inr out \<and> exit_code out = 4)
 \<and> import_module (example_env foo_source (Some foo_tree)) (''tree_sitter_'' @ ''python'') =
     Inr python_module
 \<and> language_attr python_module = Some (Callable (Inr (LanguageObj 1)))
 \<and> load_language (example_env foo_source (Some foo_tree)) ''python'' = Inr (LanguageObj 1)
 \<and> import_module raw_handle_env (''tree_sitter_'' @ ''c'') =
     Inr (PyModule (Some (Callable (Inr (RawObj 7)))))
 \<and> Language raw_handle_env 7 = Inl (TypeError ''an integer is required'')
 \<and> load_language raw_handle_env ''c'' = Inr (RawObj 7)"
proof -
  let ?e = "example_env foo_source (Some foo_tree)"
  let ?a = "\<lparr>lang = ''ruby'', cmd = Ast, args = []\<rparr>"
  have i: "import_module ?e (''tree_sitter_'' @ ''ruby'') =
      Inl (OtherException ''No module named tree_sitter_ruby'')"
    by (simp add: example_env_def)
  have j: "import_module ?e (''tree_sitter_'' @ ''python'') = Inr python_module"
    by (simp add: example_env_def)
  have k: "language_attr python_module = Some (Callable (Inr (LanguageObj 1)))"
    by (simp add: python_module_def)
  have r: "import_module raw_handle_env (''tree_sitter_'' @ ''c'') =
      Inr (PyModule (Some (Callable (Inr (RawObj 7)))))"
    by (simp add: raw_handle_env_def)
  have s: "Language raw_handle_env 7 = Inl (TypeError ''an integer is required'')"
    by (simp add: raw_handle_env_def)
  note ruby = language_load_failures_and_shapes [of ?e "''ruby''" ?a]
  note python = language_load_failures_and_shapes [of ?e "''python''" ?a]
  note c = language_load_failures_and_shapes [of raw_handle_env "''c''" ?a]
  from i have "\<exists>err. import_module ?e (''tree_sitter_'' @ ''ruby'') = Inl err" ..
  with ruby [THEN conjunct1] have "\<exists>err. load_language ?e ''ruby'' = Inl err"
    by (rule_tac iffD2) (assumption, rule disjI1)
  then have "\<exists>err. load_language ?e (lang ?a) = Inl err"
    by simp
  with ruby [THEN conjunct2, THEN conjunct2, THEN conjunct2, THEN conjunct2]
  have 1: "\<exists>out. main ?e ?a = Inr out \<and> exit_code out = 4"
    by (rule_tac iffD2)
  from python [THEN conjunct2, THEN conjunct1, rule_format, of python_module 1] j k
  have 2: "load_language ?e ''python'' = Inr (LanguageObj 1)"
    by blast
  have "language_attr (PyModule (Some (Callable (Inr (RawObj 7))))) =
      Some (Callable (Inr (RawObj 7)))"
    by simp
  with c [THEN conjunct2, THEN conjunct2, THEN conjunct2, THEN conjunct1, rule_format,
      of "PyModule (Some (Callable (Inr (RawObj 7))))" 7 "TypeError ''an integer is required''"]
    r s
  have 3: "load_language raw_handle_env ''c'' = Inr (RawObj 7)"
    by blast
  from i 1 j k 2 r s 3 show ?thesis
    by (intro conjI)
qed

section \<open>Empty standard input\<close>

lemma read_source_empty: "stdin_read e = Inr (Some []) \<Longrightarrow> read_source e = []"
  by (simp add: read_source_def)

lemma node_text_empty_source: "node_text n [] default_max_text = []"
  by (simp add: node_text_def py_slice_def slice_index_def normalize_ws_def py_split_def
      truncate_text_def default_max_text_def)

lemma walk_node_nonempty: "walk_node r src \<noteq> []"
proof -
  have "json_field (JObj (walk_node r src)) ''text'' \<noteq> None"
    by (simp add: walk_node_text)
  then show ?thesis
    by (auto simp add: json_field_def)
qed

lemma visit_folds_none:
  "list_all (\<lambda>m. \<not> spans_lines m) (ast_nodes n) \<Longrightarrow> visit_folds n out = out"
  "list_all (\<lambda>m. \<not> spans_lines m) (ast_nodes_list ns) \<Longrightarrow> visit_folds_children ns out = out"
  by (induction n out and ns out rule: visit_folds_visit_folds_children.induct)
     (auto simp add: spans_lines_def split: option.splits)

lemma cmd_folds_none:
  assumes "\<not> list_ex spans_lines (ast_nodes r)"
  shows "cmd_folds (Some r) = Inr \<lparr>stdout = [JArr []], stderr = [], exit_code = 0\<rparr>"
proof -
  from assms have "list_all (\<lambda>m. \<not> spans_lines m) (ast_nodes r)"
    by (simp add: list_all_iff list_ex_iff)
  then have "visit_folds r [] = []"
    by (rule visit_folds_none(1))
  then show ?thesis
    by (simp add: cmd_folds_def collect_folds_def sort_by_start_def printed_def)
qed

lemma cmd_symbols_none:
  assumes "\<not> list_ex allow_listed (ast_nodes r)"
  shows "cmd_symbols (Some r) src = Inr \<lparr>stdout = [JArr []], stderr = [], exit_code = 0\<rparr>"
proof -
  from assms have "filter allow_listed (ast_nodes r) = []"
    by (simp add: list_ex_iff filter_empty_conv)
  then have "visit_symbols DEFAULT_SYMBOL_NODE_TYPES r [] = []"
    by (simp add: visit_symbols_filter(1) is_symbol_allow_listed [abs_def])
  then show ?thesis
    by (simp add: cmd_symbols_def collect_symbols_def sort_by_start_def printed_def)
qed

lemma cmd_node_at_found:
  assumes "2 \<le> length as" "int_of_str e (as ! 0) = Inr row" "int_of_str e (as ! 1) = Inr col"
    and "named_descendant_for_point_range e r (row, col) (row, col) = Inr (Some n)"
  shows "cmd_node_at e (Some r) src as =
           Inr \<lparr>stdout =
                  [JObj (AList.update ''children_count'' (JInt (int (length (children n))))
                           (node_to_dict n src True default_max_text))],
                stderr = [], exit_code = 0\<rparr>"
  using assms by (simp add: cmd_node_at_def find_smallest_named_at_def printed_def)

lemma cmd_node_at_not_found:
  assumes "2 \<le> length as" "int_of_str e (as ! 0) = Inr row" "int_of_str e (as ! 1) = Inr col"
    and "named_descendant_for_point_range e r (row, col) (row, col) = Inr None
         \<or> (\<exists>err. named_descendant_for_point_range e r (row, col) (row, col) = Inl err)"
  shows "cmd_node_at e (Some r) src as = Inr \<lparr>stdout = [JObj []], stderr = [], exit_code = 0\<rparr>"
  using assms by (auto simp add: cmd_node_at_def find_smallest_named_at_def printed_def)

lemma node_at_object_fields:
  "map_of (AList.update ''children_count'' c (node_to_dict n src True mt)) ''children_count''
     = Some c"
  "map_of (AList.update ''children_count'' c (node_to_dict n src True mt)) ''text''
     = Some (JText (node_text n src mt))"
  by (simp_all add: update_conv' node_to_dict_text)

text \<open>
  Claim C4, as the code has it. With empty standard input the source buffer is empty,
  which is no error. Once the grammar is loaded and the parser is built, every command
  (\<^verbatim>\<open>node_at\<close> with two integer arguments) prints its empty shape and ends with
  status 0 when the parser raises or returns no root for the empty buffer. When the
  parser returns a root node for the empty buffer, \<^verbatim>\<open>symbols\<close> prints \<^verbatim>\<open>[]\<close> if no
  node of the root has an allow-listed type, \<^verbatim>\<open>folds\<close> prints \<^verbatim>\<open>[]\<close> if no node of the
  root ends on a later row than it starts, and \<^verbatim>\<open>node_at\<close> prints \<^verbatim>\<open>{}\<close> if the point
  lookup finds no node, each with status 0; but \<^verbatim>\<open>ast\<close> prints the object of the
  root, and \<^verbatim>\<open>node_at\<close> the object of the node that the lookup finds, with an empty
  text and status 0, and neither is the empty object.
\<close>

theorem empty_input_empty_shape_without_root:
  assumes "load_language e (lang a) = Inr l"
    and "make_parser_for_language e l = Inr p"
    and "stdin_read e = Inr (Some [])"
    and "cmd a = NodeAt \<longrightarrow>
           2 \<le> length (args a) \<and> int_of_str e (args a ! 0) = Inr row
         \<and> int_of_str e (args a ! 1) = Inr col"
  shows "read_source e = []
       \<and> ((parse_root e p [] = Inr None \<or> (\<exists>err. parse_root e p [] = Inl err)) \<longrightarrow>
            main e a = Inr \<lparr>stdout = [empty_shape (cmd a)], stderr = [], exit_code = 0\<rparr>)
       \<and> (\<forall>r. parse_root e p [] = Inr (Some r) \<longrightarrow>
            (cmd a = Symbols \<and> \<not> list_ex allow_listed (ast_nodes r) \<longrightarrow>
               main e a = Inr \<lparr>stdout = [empty_shape Symbols], stderr = [], exit_code = 0\<rparr>)
          \<and> (cmd a = Folds \<and> \<not> list_ex spans_lines (ast_nodes r) \<longrightarrow>
               main e a = Inr \<lparr>stdout = [empty_shape Folds], stderr = [], exit_code = 0\<rparr>)
          \<and> (cmd a = NodeAt
               \<and> (named_descendant_for_point_range e r (row, col) (row, col) = Inr None
                  \<or> (\<exists>err. named_descendant_for_point_range e r (row, col) (row, col)
                              = Inl err)) \<longrightarrow>
               main e a = Inr \<lparr>stdout = [empty_shape NodeAt], stderr = [], exit_code = 0\<rparr>)
          \<and> (\<forall>n. cmd a = NodeAt
               \<and> named_descendant_for_point_range e r (row, col) (row, col) = Inr (Some n) \<longrightarrow>
               (\<exists>obj. main e a = Inr \<lparr>stdout = [JObj obj], stderr = [], exit_code = 0\<rparr>
                    \<and> JObj obj \<noteq> empty_shape NodeAt
                    \<and> map_of obj ''children_count'' = Some (JInt (int (length (children n))))
                    \<and> map_of obj ''text'' = Some (JText [])))
          \<and> (cmd a = Ast \<longrightarrow>
               main e a = Inr \<lparr>stdout = [JObj (walk_node r [])], stderr = [], exit_code = 0\<rparr>
             \<and> JObj (walk_node r []) \<noteq> empty_shape Ast
             \<and> json_field (JObj (walk_node r [])) ''text'' = Some (JText [])))"
proof -
  have s: "read_source e = []"
    using assms(3) by (rule read_source_empty)
  have m: "main e a =
      (case cmd a of
         Ast \<Rightarrow> cmd_ast (acquire_root e p []) []
       | NodeAt \<Rightarrow> cmd_node_at e (acquire_root e p []) [] (args a)
       | Symbols \<Rightarrow> cmd_symbols (acquire_root e p []) []
       | Folds \<Rightarrow> cmd_folds (acquire_root e p []))"
    using assms(1,2) s by (simp add: main_def Let_def)
  have n: "main e a = Inr \<lparr>stdout = [empty_shape (cmd a)], stderr = [], exit_code = 0\<rparr>"
    if "parse_root e p [] = Inr None \<or> (\<exists>err. parse_root e p [] = Inl err)"
  proof -
    from that have r: "acquire_root e p [] = None"
      by (auto simp add: acquire_root_def)
    show ?thesis
    proof (cases "cmd a")
      case Ast
      with r show ?thesis
        by (simp add: m cmd_ast_def printed_def empty_shape_def)
    next
      case NodeAt
      with assms(4) r show ?thesis
        by (simp add: m cmd_node_at_def printed_def empty_shape_def)
    next
      case Symbols
      with r show ?thesis
        by (simp add: m cmd_symbols_def printed_def empty_shape_def)
    next
      case Folds
      with r show ?thesis
        by (simp add: m cmd_folds_def printed_def empty_shape_def)
    qed
  qed
  have t: "(cmd a = Symbols \<and> \<not> list_ex allow_listed (ast_nodes r) \<longrightarrow>
               main e a = Inr \<lparr>stdout = [empty_shape Symbols], stderr = [], exit_code = 0\<rparr>)
          \<and> (cmd a = Folds \<and> \<not> list_ex spans_lines (ast_nodes r) \<longrightarrow>
               main e a = Inr \<lparr>stdout = [empty_shape Folds], stderr = [], exit_code = 0\<rparr>)
          \<and> (cmd a = NodeAt
               \<and> (named_descendant_for_point_range e r (row, col) (row, col) = Inr None
                  \<or> (\<exists>err. named_descendant_for_point_range e r (row, col) (row, col)
                              = Inl err)) \<longrightarrow>
               main e a = Inr \<lparr>stdout = [empty_shape NodeAt], stderr = [], exit_code = 0\<rparr>)
          \<and> (\<forall>n. cmd a = NodeAt
               \<and> named_descendant_for_point_range e r (row, col) (row, col) = Inr (Some n) \<longrightarrow>
               (\<exists>obj. main e a = Inr \<lparr>stdout = [JObj obj], stderr = [], exit_code = 0\<rparr>
                    \<and> JObj obj \<noteq> empty_shape NodeAt
                    \<and> map_of obj ''children_count'' = Some (JInt (int (length (children n))))
                    \<and> map_of obj ''text'' = Some (JText [])))
          \<and> (cmd a = Ast \<longrightarrow>
               main e a = Inr \<lparr>stdout = [JObj (walk_node r [])], stderr = [], exit_code = 0\<rparr>
             \<and> JObj (walk_node r []) \<noteq> empty_shape Ast
             \<and> json_field (JObj (walk_node r [])) ''text'' = Some (JText []))"
    if pr: "parse_root e p [] = Inr (Some r)" for r
  proof -
    from pr have r: "acquire_root e p [] = Some r"
      by (simp add: acquire_root_def)
    have 1: "main e a = Inr \<lparr>stdout = [empty_shape Symbols], stderr = [], exit_code = 0\<rparr>"
      if "cmd a = Symbols \<and> \<not> list_ex allow_listed (ast_nodes r)"
      using that r by (simp add: m cmd_symbols_none empty_shape_def)
    have 2: "main e a = Inr \<lparr>stdout = [empty_shape Folds], stderr = [], exit_code = 0\<rparr>"
      if "cmd a = Folds \<and> \<not> list_ex spans_lines (ast_nodes r)"
      using that r by (simp add: m cmd_folds_none empty_shape_def)
    have 3: "main e a = Inr \<lparr>stdout = [empty_shape NodeAt], stderr = [], exit_code = 0\<rparr>"
      if "cmd a = NodeAt
               \<and> (named_descendant_for_point_range e r (row, col) (row, col) = Inr None
                  \<or> (\<exists>err. named_descendant_for_point_range e r (row, col) (row, col)
                              = Inl err))"
    proof -
      from that assms(4) have
        "2 \<le> length (args a)" "int_of_str e (args a ! 0) = Inr row"
        "int_of_str e (args a ! 1) = Inr col"
        by simp_all
      from cmd_node_at_not_found [OF this, of r "[]"] that r show ?thesis
        by (simp add: m empty_shape_def)
    qed
    have 4: "\<exists>obj. main e a = Inr \<lparr>stdout = [JObj obj], stderr = [], exit_code = 0\<rparr>
                    \<and> JObj obj \<noteq> empty_shape NodeAt
                    \<and> map_of obj ''children_count'' = Some (JInt (int (length (children n))))
                    \<and> map_of obj ''text'' = Some (JText [])"
      if "cmd a = NodeAt
               \<and> named_descendant_for_point_range e r (row, col) (row, col) = Inr (Some n)"
      for n
    proof -
      let ?obj = "AList.update ''children_count'' (JInt (int (length (children n))))
          (node_to_dict n [] True default_max_text)"
      from that assms(4) have
        "2 \<le> length (args a)" "int_of_str e (args a ! 0) = Inr row"
        "int_of_str e (args a ! 1) = Inr col"
        "named_descendant_for_point_range e r (row, col) (row, col) = Inr (Some n)"
        by simp_all
      from cmd_node_at_found [OF this, of "[]"] that r
      have a: "main e a = Inr \<lparr>stdout = [JObj ?obj], stderr = [], exit_code = 0\<rparr>"
        by (simp add: m)
      have b: "map_of ?obj ''children_count'' = Some (JInt (int (length (children n))))"
        "map_of ?obj ''text'' = Some (JText [])"
        by (simp_all add: node_at_object_fields node_text_empty_source)
      from b(1) have "?obj \<noteq> []"
        by auto
      then have c: "JObj ?obj \<noteq> empty_shape NodeAt"
        by (simp add: empty_shape_def)
      from a b c show ?thesis by blast
    qed
    have 5: "main e a = Inr \<lparr>stdout = [JObj (walk_node r [])], stderr = [], exit_code = 0\<rparr>
             \<and> JObj (walk_node r []) \<noteq> empty_shape Ast
             \<and> json_field (JObj (walk_node r [])) ''text'' = Some (JText [])"
      if "cmd a = Ast"
      using that r walk_node_nonempty [of r "[]"]
      by (simp add: m cmd_ast_def printed_def empty_shape_def walk_node_text
          node_text_empty_source)
    from 1 2 3 4 5 show ?thesis
      by blast
  qed
  from s n t show ?thesis
    by blast
qed

theorem empty_input_empty_shape_without_root_witness:
  "stdin_read (example_env [] None) = Inr (Some [])
 \<and> parse_root (example_env [] None) 0 [] = Inr None
 \<and> main (example_env [] None) (python_argv Ast []) =
      Inr \<lparr>stdout = [JObj []], stderr = [], exit_code = 0\<rparr>
 \<and> main (example_env [] None) (python_argv NodeAt [''0'', ''0'']) =
      Inr \<lparr>stdout = [JObj []], stderr = [], exit_code = 0\<rparr>
 \<and> main (example_env [] None) (python_argv Symbols []) =
      Inr \<lparr>stdout = [JArr []], stderr = [], exit_code = 0\<rparr>
 \<and> main (example_env [] None) (python_argv Folds []) =
      Inr \<lparr>stdout = [JArr []], stderr = [], exit_code = 0\<rparr>
 \<and> stdin_read (example_env [] (Some empty_module)) = Inr (Some [])
 \<and> parse_root (example_env [] (Some empty_module)) 0 [] = Inr (Some empty_module)
 \<and> main (example_env [] (Some empty_module)) (python_argv Symbols []) =
      Inr \<lparr>stdout = [JArr []], stderr = [], exit_code = 0\<rparr>
 \<and> main (example_env [] (Some empty_module)) (python_argv Folds []) =
      Inr \<lparr>stdout = [JArr []], stderr = [], exit_code = 0\<rparr>
 \<and> main (example_env [] (Some empty_module)) (python_argv Ast []) =
      Inr \<lparr>stdout = [JObj (walk_node empty_module [])], stderr = [], exit_code = 0\<rparr>
 \<and> json_field (JObj (walk_node empty_module [])) ''text'' = Some (JText [])
 \<and> (\<exists>obj. main (example_env [] (Some empty_module)) (python_argv NodeAt [''0'', ''0'']) =
             Inr \<lparr>stdout = [JObj obj], stderr = [], exit_code = 0\<rparr>
          \<and> map_of obj ''children_count'' = Some (JInt 0)
          \<and> map_of obj ''text'' = Some (JText []))"
proof -
  let ?n = "example_env [] None"
  let ?m = "example_env [] (Some empty_module)"
  have l: "load_language (example_env [] r) (lang (python_argv c as)) = Inr (LanguageObj 1)"
    for r c as
    by (simp add: python_argv_def example_env_loads)
  have p: "make_parser_for_language (example_env [] r) (LanguageObj 1) = Inr 0" for r
    by (rule example_env_parser)
  have s: "stdin_read (example_env [] r) = Inr (Some [])" for r
    by (simp add: example_env_def)
  have q: "parse_root (example_env [] r) 0 [] = Inr r" for r
    by (simp add: example_env_def)
  have c: "cmd (python_argv k as) = k" for k as
    by (simp add: python_argv_def)
  have v: "cmd (python_argv Ast []) = NodeAt \<longrightarrow>
      2 \<le> length (args (python_argv Ast []))
      \<and> int_of_str (example_env [] r) (args (python_argv Ast []) ! 0) = Inr 0
      \<and> int_of_str (example_env [] r) (args (python_argv Ast []) ! 1) = Inr 0"
    "cmd (python_argv Symbols []) = NodeAt \<longrightarrow>
      2 \<le> length (args (python_argv Symbols []))
      \<and> int_of_str (example_env [] r) (args (python_argv Symbols []) ! 0) = Inr 0
      \<and> int_of_str (example_env [] r) (args (python_argv Symbols []) ! 1) = Inr 0"
    "cmd (python_argv Folds []) = NodeAt \<longrightarrow>
      2 \<le> length (args (python_argv Folds []))
      \<and> int_of_str (example_env [] r) (args (python_argv Folds []) ! 0) = Inr 0
      \<and> int_of_str (example_env [] r) (args (python_argv Folds []) ! 1) = Inr 0"
    for r
    by (simp_all add: python_argv_def)
  have w: "cmd (python_argv NodeAt [''0'', ''0'']) = NodeAt \<longrightarrow>
      2 \<le> length (args (python_argv NodeAt [''0'', ''0'']))
      \<and> int_of_str (example_env [] r) (args (python_argv NodeAt [''0'', ''0'']) ! 0) = Inr 0
      \<and> int_of_str (example_env [] r) (args (python_argv NodeAt [''0'', ''0'']) ! 1) = Inr 0"
    for r
    by (simp add: python_argv_def example_env_def plain_decimal_def is_digit_def
        digit_value_def)
  have d: "named_descendant_for_point_range ?m empty_module (0, 0) (0, 0) =
      Inr (Some empty_module)"
    by (simp add: example_env_def)
  have x: "\<not> list_ex allow_listed (ast_nodes empty_module)"
    "\<not> list_ex spans_lines (ast_nodes empty_module)"
    "children empty_module = []"
    by (simp_all add: empty_module_def leaf_def allow_listed_def spans_lines_def
        DEFAULT_SYMBOL_NODE_TYPES_def)
  note n_ast = empty_input_empty_shape_without_root
    [OF l [of None Ast "[]"] p [of None] s [of None] v(1) [of None]]
  note n_at = empty_input_empty_shape_without_root
    [OF l [of None NodeAt "[''0'', ''0'']"] p [of None] s [of None] w [of None]]
  note n_sym = empty_input_empty_shape_without_root
    [OF l [of None Symbols "[]"] p [of None] s [of None] v(2) [of None]]
  note n_fold = empty_input_empty_shape_without_root
    [OF l [of None Folds "[]"] p [of None] s [of None] v(3) [of None]]
  note m_ast = empty_input_empty_shape_without_root
    [OF l [of "Some empty_module" Ast "[]"] p [of "Some empty_module"]
      s [of "Some empty_module"] v(1) [of "Some empty_module"]]
  note m_at = empty_input_empty_shape_without_root
    [OF l [of "Some empty_module" NodeAt "[''0'', ''0'']"] p [of "Some empty_module"]
      s [of "Some empty_module"] w [of "Some empty_module"]]
  note m_sym = empty_input_empty_shape_without_root
    [OF l [of "Some empty_module" Symbols "[]"] p [of "Some empty_module"]
      s [of "Some empty_module"] v(2) [of "Some empty_module"]]
  note m_fold = empty_input_empty_shape_without_root
    [OF l [of "Some empty_module" Folds "[]"] p [of "Some empty_module"]
      s [of "Some empty_module"] v(3) [of "Some empty_module"]]
  have 1: "main ?n (python_argv Ast []) =
      Inr \<lparr>stdout = [JObj []], stderr = [], exit_code = 0\<rparr>"
    using n_ast [THEN conjunct2, THEN conjunct1] q [of None]
    by (simp add: c empty_shape_def)
  have 2: "main ?n (python_argv NodeAt [''0'', ''0'']) =
      Inr \<lparr>stdout = [JObj []], stderr = [], exit_code = 0\<rparr>"
    using n_at [THEN conjunct2, THEN conjunct1] q [of None]
    by (simp add: c empty_shape_def)
  have 3: "main ?n (python_argv Symbols []) =
      Inr \<lparr>stdout = [JArr []], stderr = [], exit_code = 0\<rparr>"
    using n_sym [THEN conjunct2, THEN conjunct1] q [of None]
    by (simp add: c empty_shape_def)
  have 4: "main ?n (python_argv Folds []) =
      Inr \<lparr>stdout = [JArr []], stderr = [], exit_code = 0\<rparr>"
    using n_fold [THEN conjunct2, THEN conjunct1] q [of None]
    by (simp add: c empty_shape_def)
  have 5: "main ?m (python_argv Symbols []) =
      Inr \<lparr>stdout = [JArr []], stderr = [], exit_code = 0\<rparr>"
    using m_sym [THEN conjunct2, THEN conjunct2, rule_format,
        OF q [of "Some empty_module"], THEN conjunct1] x(1)
    by (simp add: c empty_shape_def)
  have 6: "main ?m (python_argv Folds []) =
      Inr \<lparr>stdout = [JArr []], stderr = [], exit_code = 0\<rparr>"
    using m_fold [THEN conjunct2, THEN conjunct2, rule_format,
        OF q [of "Some empty_module"], THEN conjunct2, THEN conjunct1] x(2)
    by (simp add: c empty_shape_def)
  have 7: "main ?m (python_argv Ast []) =
        Inr \<lparr>stdout = [JObj (walk_node empty_module [])], stderr = [], exit_code = 0\<rparr>
      \<and> json_field (JObj (walk_node empty_module [])) ''text'' = Some (JText [])"
    using m_ast [THEN conjunct2, THEN conjunct2, rule_format,
        OF q [of "Some empty_module"],
        THEN conjunct2, THEN conjunct2, THEN conjunct2, THEN conjunct2]
    by (simp add: c)
  have 8: "\<exists>obj. main ?m (python_argv NodeAt [''0'', ''0'']) =
             Inr \<lparr>stdout = [JObj obj], stderr = [], exit_code = 0\<rparr>
          \<and> map_of obj ''children_count'' = Some (JInt 0)
          \<and> map_of obj ''text'' = Some (JText [])"
    using m_at [THEN conjunct2, THEN conjunct2, rule_format,
        OF q [of "Some empty_module"],
        THEN conjunct2, THEN conjunct2, THEN conjunct2, THEN conjunct1, rule_format,
        of empty_module] d x(3)
    by (auto simp add: c)
  from s [of None] q [of None] 1 2 3 4 s [of "Some empty_module"] q [of "Some empty_module"]
    5 6 7 8
  show ?thesis
    by (intro conjI) simp_all
qed

text \<open>
  Claim C4 as stated fails: with empty standard input and a parser that returns a root
  for the empty buffer, \<^verbatim>\<open>ast\<close> prints the object of that root and not \<^verbatim>\<open>{}\<close>.
\<close>

theorem empty_input_ast_renders_root_counterexample:
  "stdin_read (example_env [] (Some empty_module)) = Inr (Some [])
 \<and> empty_shape Ast = JObj []
 \<and> main (example_env [] (Some empty_module)) (python_argv Ast []) =
      Inr \<lparr>stdout =
             [JObj [(''type'', JStr ''module''), (''named'', JBool True),
                    (''start_point'', JArr [JInt 0, JInt 0]),
                    (''end_point'', JArr [JInt 0, JInt 0]),
                    (''start_byte'', JInt 0), (''end_byte'', JInt 0),
                    (''text'', JText []), (''children'', JArr [])]],
           stderr = [], exit_code = 0\<rparr>"
  by (simp add: example_env_def python_argv_def empty_shape_def empty_module_def leaf_def
      main_def load_language_def load_language_from_package_def python_module_def
      make_parser_for_language_def read_source_def acquire_root_def cmd_ast_def printed_def
      node_to_dict_def node_points_def json_point_def json_type_def byte_or_zero_def
      node_text_def default_max_text_def truncate_text_def py_slice_def slice_index_def
      normalize_ws_def py_split_def)

section \<open>Nodes that lack fields\<close>

lemma node_to_dict_fields:
  "json_field (JObj (node_to_dict n src b mt)) ''start_point'' =
     Some (json_point (fst (node_points n)))"
  "json_field (JObj (node_to_dict n src b mt)) ''end_point'' =
     Some (json_point (snd (node_points n)))"
  "json_field (JObj (node_to_dict n src b mt)) ''start_byte'' =
     Some (JInt (byte_or_zero (start_byte n)))"
  "json_field (JObj (node_to_dict n src b mt)) ''end_byte'' =
     Some (JInt (byte_or_zero (end_byte n)))"
proof -
  obtain sp ep where p: "node_points n = (sp, ep)"
    by (cases "node_points n")
  show "json_field (JObj (node_to_dict n src b mt)) ''start_point'' =
      Some (json_point (fst (node_points n)))"
    by (simp add: p json_field_def node_to_dict_def update_conv' Let_def)
  show "json_field (JObj (node_to_dict n src b mt)) ''end_point'' =
      Some (json_point (snd (node_points n)))"
    by (simp add: p json_field_def node_to_dict_def update_conv' Let_def)
  show "json_field (JObj (node_to_dict n src b mt)) ''start_byte'' =
      Some (JInt (byte_or_zero (start_byte n)))"
    by (simp add: p json_field_def node_to_dict_def update_conv' Let_def)
  show "json_field (JObj (node_to_dict n src b mt)) ''end_byte'' =
      Some (JInt (byte_or_zero (end_byte n)))"
    by (simp add: p json_field_def node_to_dict_def update_conv' Let_def)
qed

lemma node_points_cases:
  "has_points n \<Longrightarrow> node_points n = (the (start_point n), the (end_point n))"
  "\<not> has_points n \<Longrightarrow> node_points n = ((0, 0), (0, 0))"
  by (auto simp add: has_points_def node_points_def split: option.splits)

lemma zero_defaults_node_to_dict: "zero_defaults n (JObj (node_to_dict n src b mt))"
  by (cases "has_points n")
     (simp_all add: zero_defaults_def node_to_dict_fields node_points_cases json_point_def
        byte_or_zero_def)

lemma zero_defaults_update:
  "k \<notin> {''start_point'', ''end_point'', ''start_byte'', ''end_byte''} \<Longrightarrow>
     zero_defaults n (JObj kvs) \<Longrightarrow> zero_defaults n (JObj (AList.update k v kvs))"
  by (auto simp add: zero_defaults_def json_field_def update_conv')

lemma zero_defaults_symbol_record: "zero_defaults n (symbol_record n src)"
  unfolding symbol_record_def
  by (rule zero_defaults_update) (simp_all add: zero_defaults_node_to_dict)

lemma visit_folds_skips: "\<not> has_points n \<Longrightarrow> visit_folds n out = out"
  by (cases n) (auto simp add: has_points_def split: option.splits)

lemma cmd_folds_explicit:
  "\<exists>nodes. collect_folds root = Inr nodes \<and> list_all has_points nodes
     \<and> cmd_folds (Some root) =
         Inr \<lparr>stdout =
                [JArr (map (\<lambda>n. JObj
                   [(''type'', (case ntype n of None \<Rightarrow> JNull | Some t \<Rightarrow> JStr t)),
                    (''start_point'',
                       JArr [JInt (fst (the (start_point n))),
                             JInt (snd (the (start_point n)))]),
                    (''end_point'',
                       JArr [JInt (fst (the (end_point n))),
                             JInt (snd (the (end_point n)))]),
                    (''start_byte'', JInt (case start_byte n of None \<Rightarrow> 0 | Some b \<Rightarrow> b)),
                    (''end_byte'', JInt (case end_byte n of None \<Rightarrow> 0 | Some b \<Rightarrow> b))])
                   nodes)],
              stderr = [], exit_code = 0\<rparr>"
proof -
  let ?nodes = "sort_key start_key (visit_folds root [])"
  have "list_all has_points (visit_folds root [])"
    by (rule visit_folds_points(1)) simp
  then have p: "list_all has_points ?nodes"
    by (simp add: list_all_iff)
  have c: "collect_folds root = Inr ?nodes"
    by (rule collect_folds_total)
  have "cmd_folds (Some root) =
         Inr \<lparr>stdout =
                [JArr (map (\<lambda>n. JObj
                   [(''type'', (case ntype n of None \<Rightarrow> JNull | Some t \<Rightarrow> JStr t)),
                    (''start_point'',
                       JArr [JInt (fst (the (start_point n))),
                             JInt (snd (the (start_point n)))]),
                    (''end_point'',
                       JArr [JInt (fst (the (end_point n))),
                             JInt (snd (the (end_point n)))]),
                    (''start_byte'', JInt (case start_byte n of None \<Rightarrow> 0 | Some b \<Rightarrow> b)),
                    (''end_byte'', JInt (case end_byte n of None \<Rightarrow> 0 | Some b \<Rightarrow> b))])
                   ?nodes)],
              stderr = [], exit_code = 0\<rparr>"
    by (simp add: cmd_folds_def c fold_records_explicit [OF p] printed_def)
  with c p show ?thesis by blast
qed

text \<open>
  Claim C7, as the code has it. \<^verbatim>\<open>node_to_dict\<close> never fails, and it renders every
  node of the \<^verbatim>\<open>ast\<close> output, the node that \<^verbatim>\<open>node_at\<close> prints and every record of
  \<^verbatim>\<open>symbols\<close>: a byte offset that the node lacks is rendered as 0, each on its own,
  and when the node lacks its start or its end point, both points are rendered as
  \<open>[0, 0]\<close>; \<^verbatim>\<open>ast\<close> renders every node of the tree. The \<^verbatim>\<open>folds\<close> command never
  fails either, and renders a byte offset that a node lacks as 0, each on its own; but
  its walk leaves a node that lacks a point at once, so that neither the node nor any
  node below it is rendered.
\<close>

theorem missing_fields_zero_or_skipped:
  "zero_defaults n (JObj (node_to_dict n source_bytes include_text max_text))
 \<and> cmd_ast (Some root) source_bytes =
      Inr \<lparr>stdout = [JObj (walk_node root source_bytes)], stderr = [], exit_code = 0\<rparr>
 \<and> json_objects (JObj (walk_node root source_bytes)) =
      map (\<lambda>m. node_to_dict m source_bytes True default_max_text) (ast_nodes root)
 \<and> (2 \<le> length as \<and> int_of_str e (as ! 0) = Inr row \<and> int_of_str e (as ! 1) = Inr col
      \<and> named_descendant_for_point_range e root (row, col) (row, col) = Inr (Some n) \<longrightarrow>
      (\<exists>obj. cmd_node_at e (Some root) source_bytes as =
               Inr \<lparr>stdout = [obj], stderr = [], exit_code = 0\<rparr>
           \<and> zero_defaults n obj))
 \<and> zero_defaults n (symbol_record n source_bytes)
 \<and> (\<forall>syms. collect_symbols root None = Inr syms \<longrightarrow>
        cmd_symbols (Some root) source_bytes =
          Inr \<lparr>stdout = [JArr (map (\<lambda>m. symbol_record m source_bytes) syms)],
               stderr = [], exit_code = 0\<rparr>)
 \<and> (\<not> has_points n \<longrightarrow> visit_folds n out = out)
 \<and> (\<exists>nodes. collect_folds root = Inr nodes \<and> list_all has_points nodes
       \<and> cmd_folds (Some root) =
           Inr \<lparr>stdout =
                  [JArr (map (\<lambda>n. JObj
                     [(''type'', (case ntype n of None \<Rightarrow> JNull | Some t \<Rightarrow> JStr t)),
                      (''start_point'',
                         JArr [JInt (fst (the (start_point n))),
                               JInt (snd (the (start_point n)))]),
                      (''end_point'',
                         JArr [JInt (fst (the (end_point n))),
                               JInt (snd (the (end_point n)))]),
                      (''start_byte'', JInt (case start_byte n of None \<Rightarrow> 0 | Some b \<Rightarrow> b)),
                      (''end_byte'', JInt (case end_byte n of None \<Rightarrow> 0 | Some b \<Rightarrow> b))])
                     nodes)],
                stderr = [], exit_code = 0\<rparr>)"
proof -
  have 1: "zero_defaults n (JObj (node_to_dict n source_bytes include_text max_text))"
    by (rule zero_defaults_node_to_dict)
  have 2: "cmd_ast (Some root) source_bytes =
      Inr \<lparr>stdout = [JObj (walk_node root source_bytes)], stderr = [], exit_code = 0\<rparr>"
    by (simp add: cmd_ast_def printed_def)
  have 3: "json_objects (JObj (walk_node root source_bytes)) =
      map (\<lambda>m. node_to_dict m source_bytes True default_max_text) (ast_nodes root)"
    by (rule walk_node_objects(1))
  have 4: "\<exists>obj. cmd_node_at e (Some root) source_bytes as =
               Inr \<lparr>stdout = [obj], stderr = [], exit_code = 0\<rparr>
           \<and> zero_defaults n obj"
    if "2 \<le> length as \<and> int_of_str e (as ! 0) = Inr row \<and> int_of_str e (as ! 1) = Inr col
      \<and> named_descendant_for_point_range e root (row, col) (row, col) = Inr (Some n)"
  proof -
    from that have
      "2 \<le> length as" "int_of_str e (as ! 0) = Inr row" "int_of_str e (as ! 1) = Inr col"
      "named_descendant_for_point_range e root (row, col) (row, col) = Inr (Some n)"
      by simp_all
    note f = cmd_node_at_found [OF this, of source_bytes]
    have "zero_defaults n
        (JObj (AList.update ''children_count'' (JInt (int (length (children n))))
                 (node_to_dict n source_bytes True default_max_text)))"
      by (rule zero_defaults_update) (simp_all add: zero_defaults_node_to_dict)
    with f show ?thesis by blast
  qed
  have 5: "zero_defaults n (symbol_record n source_bytes)"
    by (rule zero_defaults_symbol_record)
  have 6: "cmd_symbols (Some root) source_bytes =
          Inr \<lparr>stdout = [JArr (map (\<lambda>m. symbol_record m source_bytes) syms)],
               stderr = [], exit_code = 0\<rparr>"
    if "collect_symbols root None = Inr syms" for syms
    using that by (simp add: cmd_symbols_def printed_def)
  have 7: "visit_folds n out = out" if "\<not> has_points n"
    using that by (rule visit_folds_skips)
  from 1 2 3 4 5 6 7 cmd_folds_explicit [of root] show ?thesis
    by blast
qed

theorem missing_fields_zero_or_skipped_witness:
  "\<not> has_points half_positioned_root
 \<and> end_point half_positioned_root = Some (2, 0)
 \<and> json_field (JObj (node_to_dict half_positioned_root foo_source True 120)) ''start_point''
      = Some (JArr [JInt 0, JInt 0])
 \<and> json_field (JObj (node_to_dict half_positioned_root foo_source True 120)) ''end_point''
      = Some (JArr [JInt 0, JInt 0])
 \<and> visit_folds half_positioned_root [] = []
 \<and> named_descendant_for_point_range (example_env foo_source (Some half_positioned_root))
      half_positioned_root (0, 0) (0, 0) = Inr (Some half_positioned_root)
 \<and> (\<exists>obj. cmd_node_at (example_env foo_source (Some half_positioned_root))
              (Some half_positioned_root) foo_source [''0'', ''0''] =
              Inr \<lparr>stdout = [obj], stderr = [], exit_code = 0\<rparr>
          \<and> json_field obj ''start_point'' = Some (JArr [JInt 0, JInt 0])
          \<and> json_field obj ''end_point'' = Some (JArr [JInt 0, JInt 0])
          \<and> json_field obj ''end_byte'' = Some (JInt 20))
 \<and> start_point endless_symbol = Some (3, 4) \<and> end_point endless_symbol = None
 \<and> start_byte endless_symbol = None
 \<and> collect_symbols endless_symbol None = Inr [endless_symbol]
 \<and> cmd_symbols (Some endless_symbol) foo_source =
      Inr \<lparr>stdout = [JArr [symbol_record endless_symbol foo_source]],
           stderr = [], exit_code = 0\<rparr>
 \<and> json_field (symbol_record endless_symbol foo_source) ''start_point''
      = Some (JArr [JInt 0, JInt 0])
 \<and> json_field (symbol_record endless_symbol foo_source) ''start_byte'' = Some (JInt 0)
 \<and> start_byte startless_fold = None \<and> end_byte startless_fold = Some 30
 \<and> cmd_folds (Some startless_fold) =
      Inr \<lparr>stdout =
             [JArr [JObj [(''type'', JStr ''block''),
                          (''start_point'', JArr [JInt 0, JInt 0]),
                          (''end_point'', JArr [JInt 3, JInt 0]),
                          (''start_byte'', JInt 0), (''end_byte'', JInt 30)]]],
           stderr = [], exit_code = 0\<rparr>"
proof -
  let ?e = "example_env foo_source (Some half_positioned_root)"
  have h: "\<not> has_points half_positioned_root" "end_point half_positioned_root = Some (2, 0)"
    "end_byte half_positioned_root = Some 20"
    by (simp_all add: has_points_def half_positioned_root_def)
  have d: "named_descendant_for_point_range ?e half_positioned_root (0, 0) (0, 0) =
      Inr (Some half_positioned_root)"
    by (simp add: example_env_def)
  have i: "2 \<le> length [''0'', ''0'']" "int_of_str ?e ([''0'', ''0''] ! 0) = Inr 0"
    "int_of_str ?e ([''0'', ''0''] ! 1) = Inr 0"
    by (simp_all add: example_env_def plain_decimal_def is_digit_def digit_value_def)
  have y: "start_point endless_symbol = Some (3, 4)" "end_point endless_symbol = None"
    "start_byte endless_symbol = None" "\<not> has_points endless_symbol"
    by (simp_all add: endless_symbol_def has_points_def)
  have cs: "collect_symbols endless_symbol None = Inr [endless_symbol]"
    by (simp add: collect_symbols_def sort_by_start_def endless_symbol_def in_types_def
        DEFAULT_SYMBOL_NODE_TYPES_def)
  have b: "start_byte startless_fold = None" "end_byte startless_fold = Some 30"
    by (simp_all add: startless_fold_def)
  have cf: "collect_folds startless_fold = Inr [startless_fold]"
    by (simp add: collect_folds_def sort_by_start_def startless_fold_def)
  note t = missing_fields_zero_or_skipped
    [of half_positioned_root foo_source True 120 half_positioned_root "[''0'', ''0'']"
      ?e 0 0 "[]"]
  note u = missing_fields_zero_or_skipped
    [of endless_symbol foo_source True 120 endless_symbol "[]" ?e 0 0 "[]"]
  note w = missing_fields_zero_or_skipped
    [of startless_fold foo_source True 120 startless_fold "[]" ?e 0 0 "[]"]
  from t [THEN conjunct1] h have 1:
    "json_field (JObj (node_to_dict half_positioned_root foo_source True 120)) ''start_point''
      = Some (JArr [JInt 0, JInt 0])"
    "json_field (JObj (node_to_dict half_positioned_root foo_source True 120)) ''end_point''
      = Some (JArr [JInt 0, JInt 0])"
    by (simp_all add: zero_defaults_def)
  from t [THEN conjunct2, THEN conjunct2, THEN conjunct2, THEN conjunct2, THEN conjunct2,
      THEN conjunct2, THEN conjunct1] h
  have 2: "visit_folds half_positioned_root [] = []"
    by simp
  from t [THEN conjunct2, THEN conjunct2, THEN conjunct2, THEN conjunct1] i d
  obtain obj where
    "cmd_node_at ?e (Some half_positioned_root) foo_source [''0'', ''0''] =
       Inr \<lparr>stdout = [obj], stderr = [], exit_code = 0\<rparr>"
    "zero_defaults half_positioned_root obj"
    by blast
  with h have 3: "\<exists>obj. cmd_node_at ?e (Some half_positioned_root) foo_source [''0'', ''0''] =
              Inr \<lparr>stdout = [obj], stderr = [], exit_code = 0\<rparr>
          \<and> json_field obj ''start_point'' = Some (JArr [JInt 0, JInt 0])
          \<and> json_field obj ''end_point'' = Some (JArr [JInt 0, JInt 0])
          \<and> json_field obj ''end_byte'' = Some (JInt 20)"
    by (auto simp add: zero_defaults_def)
  from u [THEN conjunct2, THEN conjunct2, THEN conjunct2, THEN conjunct2, THEN conjunct2,
      THEN conjunct1, rule_format, OF cs]
  have 4: "cmd_symbols (Some endless_symbol) foo_source =
      Inr \<lparr>stdout = [JArr [symbol_record endless_symbol foo_source]],
           stderr = [], exit_code = 0\<rparr>"
    by simp
  from u [THEN conjunct2, THEN conjunct2, THEN conjunct2, THEN conjunct2, THEN conjunct1] y
  have 5: "json_field (symbol_record endless_symbol foo_source) ''start_point''
      = Some (JArr [JInt 0, JInt 0])"
    "json_field (symbol_record endless_symbol foo_source) ''start_byte'' = Some (JInt 0)"
    by (simp_all add: zero_defaults_def)
  from w [THEN conjunct2, THEN conjunct2, THEN conjunct2, THEN conjunct2, THEN conjunct2,
      THEN conjunct2, THEN conjunct2] cf
  have 6: "cmd_folds (Some startless_fold) =
      Inr \<lparr>stdout =
             [JArr [JObj [(''type'', JStr ''block''),
                          (''start_point'', JArr [JInt 0, JInt 0]),
                          (''end_point'', JArr [JInt 3, JInt 0]),
                          (''start_byte'', JInt 0), (''end_byte'', JInt 30)]]],
           stderr = [], exit_code = 0\<rparr>"
    by (auto simp add: startless_fold_def)
  from h(1,2) 1 2 d 3 y(1,2,3) cs 4 5 b 6 show ?thesis
    by (intro conjI)
qed

text \<open>
  Claim C7 as stated fails: \<^verbatim>\<open>folds\<close> prints nothing for a tree whose root has an
  end point on row 2 and no start point, although a child of the root spans two rows;
  and \<^verbatim>\<open>symbols\<close> ends with an uncaught exception on a function definition that
  has no start point.
\<close>

theorem missing_start_point_dropped_or_raises_counterexample:
  "start_point half_positioned_root = None
 \<and> end_point half_positioned_root = Some (2, 0)
 \<and> cmd_folds (Some half_positioned_root) = Inr (printed (JArr []))
 \<and> children half_positioned_root = [foo_function]
 \<and> spans_lines foo_function
 \<and> ntype unpositioned_symbol = Some ''function_definition''
 \<and> start_point unpositioned_symbol = None
 \<and> cmd_symbols (Some unpositioned_symbol) foo_source = Inl (AttributeError ''start_point'')"
  by (simp add: half_positioned_root_def unpositioned_symbol_def cmd_folds_def collect_folds_def
      sort_by_start_def cmd_symbols_def collect_symbols_def in_types_def
      DEFAULT_SYMBOL_NODE_TYPES_def printed_def spans_lines_def foo_function_def leaf_def)

end
